theory Spec2Isabelle
  imports Main "HOL-Library.AList" "HOL-Library.Sublist"
begin

section \<open>Rayforge Sync: the save-synchronisation engine\<close>

text \<open>
  The development embeds the filesystem logic of \<^verbatim>\<open>Rayforge-Sync.py\<close>: reading the
  manifest \<^verbatim>\<open>games.json\<close> (\<^verbatim>\<open>MainWindow.load_games_from_json\<close>), registering a game
  (\<^verbatim>\<open>MainWindow.add_new_game\<close>), and the two sync directions
  (\<^verbatim>\<open>MainWindow.upload_save\<close>, \<^verbatim>\<open>MainWindow.download_save\<close>).
  Widgets are left out; each message box the code shows is a value of the result.

  Conventions of the model:
  \<^item> the filesystem is one tree; a path is the list of its components from the root.
    Paths are absolute and contain neither \<^verbatim>\<open>.\<close> nor \<^verbatim>\<open>..\<close>; symbolic links, file
    metadata and character encodings are not represented;
  \<^item> a directory is an association list from names to nodes; a directory of a real
    filesystem lists every name once (\<open>wf_entries\<close> below);
  \<^item> the content of a file is classified by what \<^verbatim>\<open>json.load\<close> does on it (see
    \<open>content\<close> below); the JSON syntax itself is not represented;
  \<^item> \<^verbatim>\<open>os.rename\<close> has its POSIX meaning (it replaces an existing destination file);
  \<^item> the calls that come from outside the program are arguments: the identifier
    \<^verbatim>\<open>uuid.uuid4()\<close> returns, the timestamp \<^verbatim>\<open>datetime.now().strftime(...)\<close> returns
    (each is one path component), the answer of the user to a dialog, and for every
    filesystem call of the three operations an optional injected I/O failure.
\<close>

subsection \<open>Values\<close>

type_synonym path = "string list"

text \<open>
  The values \<^verbatim>\<open>json.load\<close> returns. A float is finite (a mantissa and an exponent) or
  one of the three values that \<^verbatim>\<open>json.load\<close> reads from \<^verbatim>\<open>NaN\<close>, \<^verbatim>\<open>Infinity\<close> and
  \<^verbatim>\<open>-Infinity\<close>, which are not JSON, or from a number too large for a float.
\<close>

datatype py_float = Finite int int | Infinity | Minus_infinity | NaN

datatype json =
    JNull
  | JBool bool
  | JNum int
  | JFloat py_float
  | JStr string
  | JArr "json list"
  | JObj "(string \<times> json) list"

text \<open>
  What a file holds, by what \<^verbatim>\<open>open(path, 'r')\<close> and \<^verbatim>\<open>json.load\<close> do on it:
  \<^item> \<open>Doc j\<close>: text that \<^verbatim>\<open>json.load\<close> parses, to \<open>j\<close>; it is also the text that
    \<^verbatim>\<open>json.dump\<close> writes for \<open>j\<close>. Such a text is a JSON document, or one of the texts
    beyond JSON that the parser accepts (\<^verbatim>\<open>NaN\<close>, for one);
  \<^item> \<open>Raw s\<close>: text with a syntax error, on which \<^verbatim>\<open>json.load\<close> raises
    \<^verbatim>\<open>JSONDecodeError\<close>; the save files of a game are of this kind;
  \<^item> \<open>Beyond_limits l\<close>: text that the parser gives up on: an integer literal of more
    than 4300 digits (\<^verbatim>\<open>ValueError\<close>; a number of 5001 digits is a JSON document whose
    root is not an object), or a nesting too deep for it (\<^verbatim>\<open>RecursionError\<close>);
  \<^item> \<open>Undecodable\<close>: bytes that are not text in the encoding \<^verbatim>\<open>open\<close> uses (the two
    bytes \<^verbatim>\<open>ff fe\<close>, for one), on which reading raises \<^verbatim>\<open>UnicodeDecodeError\<close>.
\<close>

datatype parser_limit = Long_number | Deep_nesting

datatype content = Doc json | Raw string | Beyond_limits parser_limit | Undecodable

datatype node = File content | Dir "(string \<times> node) list"

datatype py_exn =
    FileNotFoundError
  | FileExistsError
  | NotADirectoryError
  | IsADirectoryError
  | PermissionError
  | OSError
  | ShutilError
  | JSONDecodeError
  | UnicodeDecodeError
  | ValueError
  | RecursionError
  | TypeError
  | KeyError
  | AttributeError

text \<open>Python's truth value of a JSON value, as \<^verbatim>\<open>not v\<close> tests it.\<close>

fun truthy :: "json \<Rightarrow> bool" where
  "truthy JNull = False"
| "truthy (JBool b) = b"
| "truthy (JNum n) = (n \<noteq> 0)"
| "truthy (JFloat f) = (case f of Finite m e \<Rightarrow> m \<noteq> 0 | _ \<Rightarrow> True)"
| "truthy (JStr s) = (s \<noteq> [])"
| "truthy (JArr xs) = (xs \<noteq> [])"
| "truthy (JObj kv) = (kv \<noteq> [])"

text \<open>
  \<^verbatim>\<open>str.lower()\<close> on the ASCII letters; every other character is kept. The code of a
  capital letter is between 65 and 90, and adding 32 to it sets the bit of weight 32.
\<close>

definition lower_char :: "char \<Rightarrow> char" where
  "lower_char c =
     (let n = (of_char c :: nat) in
      if 65 \<le> n \<and> n \<le> 90
      then (case c of Char b0 b1 b2 b3 b4 b5 b6 b7 \<Rightarrow> Char b0 b1 b2 b3 b4 True b6 b7)
      else c)"

definition lower :: "string \<Rightarrow> string" where
  "lower s = map lower_char s"

text \<open>\<^verbatim>\<open>pathlib.Path(s)\<close> for an absolute path string: its components.\<close>

fun path_parts :: "string \<Rightarrow> string \<Rightarrow> path" where
  "path_parts acc [] = (if acc = [] then [] else [acc])"
| "path_parts acc (c # cs) =
     (if c = CHR ''/'' then (if acc = [] then [] else [acc]) @ path_parts [] cs
      else path_parts (acc @ [c]) cs)"

definition Path :: "string \<Rightarrow> path" where
  "Path s = path_parts [] s"

subsection \<open>The filesystem tree\<close>

primrec lookup :: "path \<Rightarrow> node \<Rightarrow> node option" where
  "lookup [] n = Some n"
| "lookup (x # xs) n =
     (case n of
        File _ \<Rightarrow> None
      | Dir es \<Rightarrow> (case map_of es x of None \<Rightarrow> None | Some c \<Rightarrow> lookup xs c))"

text \<open>The exception a system call raises for a path that does not resolve.\<close>

primrec missing_errno :: "path \<Rightarrow> node \<Rightarrow> py_exn" where
  "missing_errno [] n = FileNotFoundError"
| "missing_errno (x # xs) n =
     (case n of
        File _ \<Rightarrow> NotADirectoryError
      | Dir es \<Rightarrow>
          (case map_of es x of None \<Rightarrow> FileNotFoundError | Some c \<Rightarrow> missing_errno xs c))"

text \<open>
  \<open>put p v\<close> binds the last component of \<open>p\<close> to \<open>v\<close> in its parent directory, which
  must exist; \<open>remove p\<close> unlinks the entry at \<open>p\<close>, which must exist;
  \<open>makedirs p\<close> creates \<open>p\<close> and its missing ancestors as directories.
\<close>

primrec put :: "path \<Rightarrow> node \<Rightarrow> node \<Rightarrow> node option" where
  "put [] v n = Some v"
| "put (x # xs) v n =
     (case n of
        File _ \<Rightarrow> None
      | Dir es \<Rightarrow>
          if xs = [] then Some (Dir (AList.update x v es))
          else (case map_of es x of
                  None \<Rightarrow> None
                | Some c \<Rightarrow>
                    (case put xs v c of
                       None \<Rightarrow> None
                     | Some c' \<Rightarrow> Some (Dir (AList.update x c' es)))))"

primrec remove :: "path \<Rightarrow> node \<Rightarrow> node option" where
  "remove [] n = None"
| "remove (x # xs) n =
     (case n of
        File _ \<Rightarrow> None
      | Dir es \<Rightarrow>
          (case map_of es x of
             None \<Rightarrow> None
           | Some c \<Rightarrow>
               if xs = [] then Some (Dir (AList.delete x es))
               else (case remove xs c of
                       None \<Rightarrow> None
                     | Some c' \<Rightarrow> Some (Dir (AList.update x c' es)))))"

primrec makedirs :: "path \<Rightarrow> node \<Rightarrow> node option" where
  "makedirs [] n = (case n of File _ \<Rightarrow> None | Dir _ \<Rightarrow> Some n)"
| "makedirs (x # xs) n =
     (case n of
        File _ \<Rightarrow> None
      | Dir es \<Rightarrow>
          (case makedirs xs (case map_of es x of None \<Rightarrow> Dir [] | Some c \<Rightarrow> c) of
             None \<Rightarrow> None
           | Some c' \<Rightarrow> Some (Dir (AList.update x c' es))))"

definition is_dir :: "path \<Rightarrow> node \<Rightarrow> bool" where
  "is_dir p fs = (case lookup p fs of Some (Dir _) \<Rightarrow> True | _ \<Rightarrow> False)"

text \<open>Two paths of which neither lies at or below the other.\<close>

definition apart :: "path \<Rightarrow> path \<Rightarrow> bool" where
  "apart p q = (\<not> prefix p q \<and> \<not> prefix q p)"

text \<open>Every directory lists each name once.\<close>

function wf_entries :: "(string \<times> node) list \<Rightarrow> bool" where
  "wf_entries [] = True"
| "wf_entries ((x, File c) # es) = (x \<notin> fst ` set es \<and> wf_entries es)"
| "wf_entries ((x, Dir sub) # es) = (x \<notin> fst ` set es \<and> wf_entries sub \<and> wf_entries es)"
  by pat_completeness auto
termination
  by (relation "measure (size_list (size_prod (\<lambda>_. 0) size))") auto

fun wf :: "node \<Rightarrow> bool" where
  "wf (File c) = True"
| "wf (Dir es) = wf_entries es"

subsection \<open>System and library calls\<close>

text \<open>
  A call returns \<open>Inr\<close> the new tree, or \<open>Inl\<close> the exception it raises, in which case
  the tree is as before the call.
\<close>

definition iterdir :: "path \<Rightarrow> node \<Rightarrow> py_exn + string list" where
  "iterdir p fs =
     (case lookup p fs of
        None \<Rightarrow> Inl (missing_errno p fs)
      | Some (File _) \<Rightarrow> Inl NotADirectoryError
      | Some (Dir es) \<Rightarrow> Inr (map fst es))"

text \<open>\<^verbatim>\<open>Path.mkdir()\<close>.\<close>

definition os_mkdir :: "path \<Rightarrow> node \<Rightarrow> py_exn + node" where
  "os_mkdir p fs =
     (case lookup p fs of
        Some _ \<Rightarrow> Inl FileExistsError
      | None \<Rightarrow>
          (case put p (Dir []) fs of
             None \<Rightarrow> Inl (missing_errno p fs)
           | Some fs' \<Rightarrow> Inr fs'))"

text \<open>\<^verbatim>\<open>Path.mkdir(parents=True, exist_ok=True)\<close>.\<close>

definition mkdir_parents :: "path \<Rightarrow> node \<Rightarrow> py_exn + node" where
  "mkdir_parents p fs =
     (case lookup p fs of
        Some (File _) \<Rightarrow> Inl FileExistsError
      | _ \<Rightarrow>
          (case makedirs p fs of
             None \<Rightarrow> Inl NotADirectoryError
           | Some fs' \<Rightarrow> Inr fs'))"

text \<open>\<^verbatim>\<open>shutil.rmtree(p)\<close> and \<^verbatim>\<open>os.remove(p)\<close>.\<close>

definition rmtree :: "path \<Rightarrow> node \<Rightarrow> py_exn + node" where
  "rmtree p fs =
     (case lookup p fs of
        None \<Rightarrow> Inl (missing_errno p fs)
      | Some (File _) \<Rightarrow> Inl NotADirectoryError
      | Some (Dir _) \<Rightarrow>
          (case remove p fs of None \<Rightarrow> Inl OSError | Some fs' \<Rightarrow> Inr fs'))"

definition os_remove :: "path \<Rightarrow> node \<Rightarrow> py_exn + node" where
  "os_remove p fs =
     (case lookup p fs of
        None \<Rightarrow> Inl (missing_errno p fs)
      | Some (Dir _) \<Rightarrow> Inl IsADirectoryError
      | Some (File _) \<Rightarrow>
          (case remove p fs of None \<Rightarrow> Inl OSError | Some fs' \<Rightarrow> Inr fs'))"

text \<open>\<^verbatim>\<open>open(p, 'r')\<close> with \<^verbatim>\<open>json.load\<close>, and \<^verbatim>\<open>open(p, 'w')\<close> with \<^verbatim>\<open>json.dump\<close>.\<close>

definition open_r :: "path \<Rightarrow> node \<Rightarrow> py_exn + content" where
  "open_r p fs =
     (case lookup p fs of
        None \<Rightarrow> Inl (missing_errno p fs)
      | Some (Dir _) \<Rightarrow> Inl IsADirectoryError
      | Some (File c) \<Rightarrow> Inr c)"

definition json_load :: "content \<Rightarrow> py_exn + json" where
  "json_load c =
     (case c of
        Doc j \<Rightarrow> Inr j
      | Raw _ \<Rightarrow> Inl JSONDecodeError
      | Beyond_limits Long_number \<Rightarrow> Inl ValueError
      | Beyond_limits Deep_nesting \<Rightarrow> Inl RecursionError
      | Undecodable \<Rightarrow> Inl UnicodeDecodeError)"

definition write_file :: "path \<Rightarrow> content \<Rightarrow> node \<Rightarrow> py_exn + node" where
  "write_file p c fs =
     (case lookup p fs of
        Some (Dir _) \<Rightarrow> Inl IsADirectoryError
      | _ \<Rightarrow>
          (case put p (File c) fs of
             None \<Rightarrow> Inl (missing_errno p fs)
           | Some fs' \<Rightarrow> Inr fs'))"

text \<open>
  \<^verbatim>\<open>os.rename(src, dst)\<close>: the destination is replaced when it is a file and the source
  is one, or when it is an empty directory and the source is a directory.
\<close>

definition os_rename :: "path \<Rightarrow> path \<Rightarrow> node \<Rightarrow> py_exn + node" where
  "os_rename src dst fs =
     (case lookup src fs of
        None \<Rightarrow> Inl (missing_errno src fs)
      | Some v \<Rightarrow>
          if src = dst then Inr fs
          else if (case v of
                     File _ \<Rightarrow> is_dir dst fs
                   | Dir _ \<Rightarrow> strict_prefix src dst \<or> lookup dst fs \<notin> {None, Some (Dir [])})
          then Inl (case (v, lookup dst fs) of
                      (File _, _) \<Rightarrow> IsADirectoryError
                    | (Dir _, Some (File _)) \<Rightarrow> NotADirectoryError
                    | _ \<Rightarrow> OSError)
          else
            (case put dst v fs of
               None \<Rightarrow> Inl (missing_errno dst fs)
             | Some fs1 \<Rightarrow>
                 (case remove src fs1 of None \<Rightarrow> Inl OSError | Some fs2 \<Rightarrow> Inr fs2)))"

text \<open>
  The recursion of \<^verbatim>\<open>shutil.copytree(src, dst, dirs_exist_ok=True)\<close> on the entries of
  the source directory, given the entries the destination directory has: a file is
  copied over a file of the same name, a directory is merged into a directory of the
  same name. An entry that meets an entry of the other kind is an error; the error is
  collected and the copy goes on with the next entry, as the library does. The result
  is whether there was no error, and the entries of the destination.
\<close>

function copytree_node ::
  "(string \<times> node) list \<Rightarrow> (string \<times> node) list \<Rightarrow> bool \<times> (string \<times> node) list" where
  "copytree_node [] ds = (True, ds)"
| "copytree_node ((x, File c) # es) ds =
     (case map_of ds x of
        Some (Dir _) \<Rightarrow> (False, snd (copytree_node es ds))
      | _ \<Rightarrow> copytree_node es (AList.update x (File c) ds))"
| "copytree_node ((x, Dir sub) # es) ds =
     (case map_of ds x of
        Some (File _) \<Rightarrow> (False, snd (copytree_node es ds))
      | Some (Dir dsub) \<Rightarrow>
          (let (ok1, dsub') = copytree_node sub dsub;
               (ok2, ds') = copytree_node es (AList.update x (Dir dsub') ds)
           in (ok1 \<and> ok2, ds'))
      | None \<Rightarrow>
          (let (ok1, dsub') = copytree_node sub [];
               (ok2, ds') = copytree_node es (AList.update x (Dir dsub') ds)
           in (ok1 \<and> ok2, ds')))"
  by pat_completeness auto
termination
  by (relation "measure (\<lambda>(es, ds). size_list (size_prod (\<lambda>_. 0) size) es)") auto

text \<open>
  \<^verbatim>\<open>shutil.copytree(src, dst, dirs_exist_ok=b)\<close>. A call returns the exception it raises,
  if any, and the tree it leaves. The source tree is read before the destination is
  written, which is what the library does when neither path lies inside the other.
\<close>

definition copytree :: "bool \<Rightarrow> path \<Rightarrow> path \<Rightarrow> node \<Rightarrow> py_exn option \<times> node" where
  "copytree dirs_exist_ok src dst fs =
     (case lookup src fs of
        None \<Rightarrow> (Some (missing_errno src fs), fs)
      | Some (File _) \<Rightarrow> (Some NotADirectoryError, fs)
      | Some (Dir es) \<Rightarrow>
          (case lookup dst fs of
             Some (File _) \<Rightarrow> (Some FileExistsError, fs)
           | Some (Dir ds) \<Rightarrow>
               if dirs_exist_ok then
                 (let (ok, ds') = copytree_node es ds in
                  case put dst (Dir ds') fs of
                    None \<Rightarrow> (Some OSError, fs)
                  | Some fs' \<Rightarrow> (if ok then None else Some ShutilError, fs'))
               else (Some FileExistsError, fs)
           | None \<Rightarrow>
               (case makedirs dst fs of
                  None \<Rightarrow> (Some NotADirectoryError, fs)
                | Some fs1 \<Rightarrow>
                    (let (ok, ds') = copytree_node es [] in
                     case put dst (Dir ds') fs1 of
                       None \<Rightarrow> (Some OSError, fs1)
                     | Some fs' \<Rightarrow> (if ok then None else Some ShutilError, fs')))))"

text \<open>
  \<^verbatim>\<open>shutil.move(src, dst)\<close>: into \<open>dst\<close> when that is a directory, else by
  \<^verbatim>\<open>os.rename\<close>, and when the rename is refused and the source is a directory, by
  \<^verbatim>\<open>copytree\<close> and \<^verbatim>\<open>rmtree\<close>.
\<close>

definition shutil_move :: "path \<Rightarrow> path \<Rightarrow> node \<Rightarrow> py_exn option \<times> node" where
  "shutil_move src dst fs =
     (let into = (is_dir dst fs \<and> src \<noteq> dst);
          real_dst = (if into then dst @ (if src = [] then [] else [last src]) else dst)
      in
        if into \<and> lookup real_dst fs \<noteq> None then (Some ShutilError, fs)
        else
          (case os_rename src real_dst fs of
             Inr fs' \<Rightarrow> (None, fs')
           | Inl e \<Rightarrow>
               (case lookup src fs of
                  Some (Dir _) \<Rightarrow>
                    if prefix src dst then (Some ShutilError, fs)
                    else
                      (case copytree False src real_dst fs of
                         (Some e', fs1) \<Rightarrow> (Some e', fs1)
                       | (None, fs1) \<Rightarrow>
                           (case rmtree src fs1 of
                              Inl e' \<Rightarrow> (Some e', fs1)
                            | Inr fs2 \<Rightarrow> (None, fs2)))
                | _ \<Rightarrow> (Some e, fs))))"

subsection \<open>Injected I/O failures\<close>

text \<open>
  A call with an injected failure raises the given exception. A call that is not
  atomic may have written before it raises: the failure of writing a file says what
  the file is left holding, if it was created at all, and the failure of a tree copy
  says which entries reached the destination directory.
\<close>

definition faulty ::
  "py_exn option \<Rightarrow> (node \<Rightarrow> py_exn + node) \<Rightarrow> node \<Rightarrow> py_exn + node" where
  "faulty flt call fs = (case flt of Some e \<Rightarrow> Inl e | None \<Rightarrow> call fs)"

definition write_file_faulty ::
  "(py_exn \<times> content option) option \<Rightarrow> path \<Rightarrow> content \<Rightarrow> node \<Rightarrow> py_exn option \<times> node" where
  "write_file_faulty flt p c fs =
     (case flt of
        None \<Rightarrow> (case write_file p c fs of Inl e \<Rightarrow> (Some e, fs) | Inr fs' \<Rightarrow> (None, fs'))
      | Some (e, None) \<Rightarrow> (Some e, fs)
      | Some (e, Some left) \<Rightarrow>
          (case write_file p left fs of Inl _ \<Rightarrow> (Some e, fs) | Inr fs' \<Rightarrow> (Some e, fs')))"

definition copytree_faulty ::
  "(py_exn \<times> (string \<times> node) list) option \<Rightarrow> path \<Rightarrow> path \<Rightarrow> node \<Rightarrow> py_exn option \<times> node"
  where
  "copytree_faulty flt src dst fs =
     (case flt of
        None \<Rightarrow> copytree True src dst fs
      | Some (e, part) \<Rightarrow>
          (case lookup dst fs of
             Some (Dir ds) \<Rightarrow>
               (case put dst (Dir (snd (copytree_node part ds))) fs of
                  None \<Rightarrow> (Some e, fs)
                | Some fs' \<Rightarrow> (Some e, fs'))
           | _ \<Rightarrow> (Some e, fs)))"

subsection \<open>The application state\<close>

text \<open>
  The fields of \<^verbatim>\<open>MainWindow\<close> the operations use, with the filesystem and the
  persisted setting \<^verbatim>\<open>show_overwrite_warning\<close>.
\<close>

record app =
  files :: node
  server_path :: path
  local_game_paths :: "string \<rightharpoonup> string"
  local_backup_root :: path
  show_overwrite_warning :: bool

definition games_json_path :: "app \<Rightarrow> path" where
  "games_json_path s = server_path s @ [''games.json'']"

subsection \<open>\<^verbatim>\<open>load_games_from_json\<close>\<close>

text \<open>
  The outcome of a failed load: one of the three message boxes, or an exception that
  leaves the function uncaught.
\<close>

datatype load_error =
    Games_corrupted
  | Games_invalid_format
  | Games_unreadable py_exn
  | Uncaught py_exn

text \<open>The \<^verbatim>\<open>try\<close> block: the value of \<^verbatim>\<open>games_list\<close>, or the exception raised.\<close>

definition read_games_list :: "py_exn option \<Rightarrow> app \<Rightarrow> py_exn + json list" where
  "read_games_list flt s =
     (case flt of
        Some e \<Rightarrow> Inl e
      | None \<Rightarrow>
          (case open_r (games_json_path s) (files s) of
             Inl e \<Rightarrow> Inl e
           | Inr c \<Rightarrow>
               (case json_load c of
                  Inl e \<Rightarrow> Inl e
                | Inr data \<Rightarrow>
                    (case data of
                       JObj kv \<Rightarrow>
                         (case map_of kv ''games'' of
                            Some (JArr games_list) \<Rightarrow> Inr games_list
                          | _ \<Rightarrow> Inl TypeError)
                     | _ \<Rightarrow> Inl TypeError))))"

text \<open>\<^verbatim>\<open>not v\<close> for the result of \<^verbatim>\<open>dict.get\<close>, which is \<^verbatim>\<open>None\<close> for a missing key.\<close>

definition py_not :: "json option \<Rightarrow> bool" where
  "py_not v = (case v of None \<Rightarrow> True | Some j \<Rightarrow> \<not> truthy j)"

text \<open>
  The two calls of the loop body that can raise, outside any \<^verbatim>\<open>try\<close>:
  \<^verbatim>\<open>QListWidgetItem(game_name)\<close> takes a string, and
  \<^verbatim>\<open>game_id not in self.local_game_paths\<close> hashes the identifier, which Python refuses
  for a list and for a dict. Both raise \<^verbatim>\<open>TypeError\<close>.
\<close>

fun is_str :: "json option \<Rightarrow> bool" where
  "is_str (Some (JStr s)) = True"
| "is_str _ = False"

fun hashable :: "json option \<Rightarrow> bool" where
  "hashable (Some (JArr xs)) = False"
| "hashable (Some (JObj kv)) = False"
| "hashable _ = True"

text \<open>
  The \<^verbatim>\<open>for\<close> loop: the data of the list items it adds, in order, or the exception
  that ends it. The colour and the tooltip of an item are not represented.
\<close>

fun list_items :: "json list \<Rightarrow> py_exn + json list" where
  "list_items [] = Inr []"
| "list_items (game # rest) =
     (case game of
        JObj kv \<Rightarrow>
          if py_not (map_of kv ''id'') \<or> py_not (map_of kv ''name'') then list_items rest
          else if \<not> is_str (map_of kv ''name'') \<or> \<not> hashable (map_of kv ''id'')
          then Inl TypeError
          else (case list_items rest of Inl e \<Rightarrow> Inl e | Inr items \<Rightarrow> Inr (game # items))
      | _ \<Rightarrow> list_items rest)"

definition load_games_from_json :: "py_exn option \<Rightarrow> app \<Rightarrow> load_error + json list" where
  "load_games_from_json flt s =
     (case read_games_list flt s of
        Inl JSONDecodeError \<Rightarrow> Inl Games_corrupted
      | Inl TypeError \<Rightarrow> Inl Games_invalid_format
      | Inl e \<Rightarrow> Inl (Games_unreadable e)
      | Inr games_list \<Rightarrow>
          (case list_items games_list of Inl e \<Rightarrow> Inl (Uncaught e) | Inr items \<Rightarrow> Inr items))"

subsection \<open>\<^verbatim>\<open>add_new_game\<close>\<close>

record add_faults =
  a_mkdir_save_data :: "py_exn option"
  a_mkdir_backup :: "py_exn option"
  a_read :: "py_exn option"
  a_rmtree_duplicate :: "py_exn option"
  a_write_temp :: "(py_exn \<times> content option) option"
  a_rename :: "py_exn option"
  a_rmtree_rollback :: "py_exn option"

datatype message =
    Server_error_mkdir py_exn
  | Duplicate_game
  | Server_error_update py_exn
  | Rollback_error py_exn

text \<open>
  The function either runs to its end (\<open>Registered\<close>) or returns early, having shown
  the given message boxes.
\<close>

datatype add_outcome = Registered | Returned "message list"

text \<open>What \<^verbatim>\<open>for g in v\<close> iterates over.\<close>

definition py_iter :: "json \<Rightarrow> py_exn + json list" where
  "py_iter v =
     (case v of
        JArr gs \<Rightarrow> Inr gs
      | JStr cs \<Rightarrow> Inr (map (\<lambda>c. JStr [c]) cs)
      | JObj kv \<Rightarrow> Inr (map (\<lambda>e. JStr (fst e)) kv)
      | _ \<Rightarrow> Inl TypeError)"

text \<open>\<^verbatim>\<open>[g['name'].lower() for g in ...]\<close>.\<close>

fun names_lower :: "json list \<Rightarrow> py_exn + string list" where
  "names_lower [] = Inr []"
| "names_lower (g # gs) =
     (case g of
        JObj kv \<Rightarrow>
          (case map_of kv ''name'' of
             None \<Rightarrow> Inl KeyError
           | Some (JStr n) \<Rightarrow>
               (case names_lower gs of Inl e \<Rightarrow> Inl e | Inr ns \<Rightarrow> Inr (lower n # ns))
           | Some _ \<Rightarrow> Inl AttributeError)
      | _ \<Rightarrow> Inl TypeError)"

definition existing_names :: "json \<Rightarrow> py_exn + string list" where
  "existing_names server_data =
     (case server_data of
        JObj kv \<Rightarrow>
          (case py_iter (case map_of kv ''games'' of None \<Rightarrow> JArr [] | Some v \<Rightarrow> v) of
             Inl e \<Rightarrow> Inl e
           | Inr gs \<Rightarrow> names_lower gs)
      | _ \<Rightarrow> Inl AttributeError)"

text \<open>\<^verbatim>\<open>server_data["games"].append(new_game_data)\<close>.\<close>

definition append_game :: "json \<Rightarrow> json \<Rightarrow> py_exn + json" where
  "append_game server_data new_game_data =
     (case server_data of
        JObj kv \<Rightarrow>
          (case map_of kv ''games'' of
             None \<Rightarrow> Inl KeyError
           | Some (JArr gs) \<Rightarrow> Inr (JObj (AList.update ''games'' (JArr (gs @ [new_game_data])) kv))
           | Some _ \<Rightarrow> Inl AttributeError)
      | _ \<Rightarrow> Inl TypeError)"

text \<open>
  The two statements that save the manifest: write the temporary file, rename it over
  \<^verbatim>\<open>games.json\<close>.
\<close>

definition games_json_temp_path :: "app \<Rightarrow> path" where
  "games_json_temp_path s = server_path s @ [''games.json.tmp'']"

definition write_games_json ::
  "add_faults \<Rightarrow> path \<Rightarrow> path \<Rightarrow> json \<Rightarrow> node \<Rightarrow> py_exn option \<times> node" where
  "write_games_json flt temp_path json_path server_data fs =
     (case write_file_faulty (a_write_temp flt) temp_path (Doc server_data) fs of
        (Some e, fs1) \<Rightarrow> (Some e, fs1)
      | (None, fs1) \<Rightarrow>
          (case faulty (a_rename flt) (os_rename temp_path json_path) fs1 of
             Inl e \<Rightarrow> (Some e, fs1)
           | Inr fs2 \<Rightarrow> (None, fs2)))"

text \<open>
  The second \<^verbatim>\<open>try\<close> block. It ends normally, or returns from the function in the
  duplicate branch, or raises; the messages are those shown inside the block.
\<close>

datatype attempt =
    Completed node
  | Return_in_try "message list" node
  | Raised "message list" py_exn node

definition update_games_json ::
  "add_faults \<Rightarrow> path \<Rightarrow> path \<Rightarrow> path \<Rightarrow> string \<Rightarrow> json \<Rightarrow> node \<Rightarrow> attempt" where
  "update_games_json flt json_path temp_path game_server_dir game_name new_game_data fs =
     (case (case a_read flt of
              Some e \<Rightarrow> Inl e
            | None \<Rightarrow>
                (case open_r json_path fs of Inl e \<Rightarrow> Inl e | Inr c \<Rightarrow> json_load c)) of
        Inl e \<Rightarrow> Raised [] e fs
      | Inr server_data \<Rightarrow>
          (case existing_names server_data of
             Inl e \<Rightarrow> Raised [] e fs
           | Inr names \<Rightarrow>
               if lower game_name \<in> set names then
                 (case faulty (a_rmtree_duplicate flt) (rmtree game_server_dir) fs of
                    Inl e \<Rightarrow> Raised [Duplicate_game] e fs
                  | Inr fs' \<Rightarrow> Return_in_try [Duplicate_game] fs')
               else
                 (case append_game server_data new_game_data of
                    Inl e \<Rightarrow> Raised [] e fs
                  | Inr server_data' \<Rightarrow>
                      (case write_games_json flt temp_path json_path server_data' fs of
                         (Some e, fs') \<Rightarrow> Raised [] e fs'
                       | (None, fs') \<Rightarrow> Completed fs'))))"

text \<open>
  \<^verbatim>\<open>add_new_game\<close>, from the result of the dialog on: \<open>None\<close> when the dialog was
  cancelled, else the name and the local path \<^verbatim>\<open>get_data\<close> returns. After the manifest
  is saved the function has no further statement.
\<close>

definition add_new_game ::
  "add_faults \<Rightarrow> string \<Rightarrow> (string \<times> string) option \<Rightarrow> app \<Rightarrow> add_outcome \<times> app" where
  "add_new_game flt uuid4 dialog s =
     (case dialog of
        None \<Rightarrow> (Returned [], s)
      | Some (game_name, local_path) \<Rightarrow>
          (let game_id = uuid4;
               new_game_data = JObj [(''id'', JStr game_id), (''name'', JStr game_name)];
               game_server_dir = server_path s @ [game_id]
           in
             case faulty (a_mkdir_save_data flt)
                    (mkdir_parents (game_server_dir @ [''save_data''])) (files s) of
               Inl e \<Rightarrow> (Returned [Server_error_mkdir e], s)
             | Inr fs1 \<Rightarrow>
                 (case faulty (a_mkdir_backup flt)
                         (mkdir_parents (game_server_dir @ [''backup''])) fs1 of
                    Inl e \<Rightarrow> (Returned [Server_error_mkdir e], s\<lparr>files := fs1\<rparr>)
                  | Inr fs2 \<Rightarrow>
                      (case update_games_json flt (games_json_path s) (games_json_temp_path s)
                              game_server_dir game_name new_game_data fs2 of
                         Completed fs3 \<Rightarrow> (Registered, s\<lparr>files := fs3\<rparr>)
                       | Return_in_try ms fs3 \<Rightarrow> (Returned ms, s\<lparr>files := fs3\<rparr>)
                       | Raised ms e fs3 \<Rightarrow>
                           (case faulty (a_rmtree_rollback flt) (rmtree game_server_dir) fs3 of
                              Inr fs4 \<Rightarrow>
                                (Returned (ms @ [Server_error_update e]), s\<lparr>files := fs4\<rparr>)
                            | Inl e_roll \<Rightarrow>
                                (Returned (ms @ [Server_error_update e, Rollback_error e_roll]),
                                 s\<lparr>files := fs3\<rparr>))))))"

subsection \<open>\<^verbatim>\<open>upload_save\<close> and \<^verbatim>\<open>download_save\<close>\<close>

text \<open>
  \<^verbatim>\<open>_show_overwrite_warning\<close>: the answer is the button the user clicks (\<open>True\<close> for OK)
  and whether the box \<^verbatim>\<open>Don't show this warning again\<close> is ticked.
\<close>

definition show_overwrite_warning_dialog :: "bool \<times> bool \<Rightarrow> app \<Rightarrow> bool \<times> app" where
  "show_overwrite_warning_dialog answer s =
     (if \<not> show_overwrite_warning s then (True, s)
      else (fst answer, if snd answer then s\<lparr>show_overwrite_warning := False\<rparr> else s))"

text \<open>
  \<^verbatim>\<open>_clear_directory_contents\<close>: the loop over the entries of the directory.
\<close>

fun clear_entries :: "path \<Rightarrow> string list \<Rightarrow> node \<Rightarrow> py_exn + node" where
  "clear_entries dir_path [] fs = Inr fs"
| "clear_entries dir_path (x # xs) fs =
     (case (if is_dir (dir_path @ [x]) fs then rmtree (dir_path @ [x]) fs
            else os_remove (dir_path @ [x]) fs) of
        Inl e \<Rightarrow> Inl e
      | Inr fs' \<Rightarrow> clear_entries dir_path xs fs')"

definition clear_directory_contents :: "path \<Rightarrow> node \<Rightarrow> py_exn + node" where
  "clear_directory_contents dir_path fs =
     (case lookup dir_path fs of
        Some (Dir es) \<Rightarrow> clear_entries dir_path (map fst es) fs
      | _ \<Rightarrow> Inr fs)"

datatype sync_outcome =
    No_selection
  | Local_path_not_set
  | Cancelled
  | Complete
  | Failed py_exn

record upload_faults =
  u_iterdir :: "py_exn option"
  u_move :: "py_exn option"
  u_mkdir :: "py_exn option"
  u_copytree :: "(py_exn \<times> (string \<times> node) list) option"

text \<open>The \<^verbatim>\<open>try\<close> block of \<^verbatim>\<open>upload_save\<close>.\<close>

definition upload_files ::
  "upload_faults \<Rightarrow> string \<Rightarrow> path \<Rightarrow> path \<Rightarrow> string \<Rightarrow> node \<Rightarrow> py_exn option \<times> node" where
  "upload_files flt timestamp local_path server game_id fs =
     (let server_save_path = server @ [game_id, ''save_data''];
          server_backup_path = server @ [game_id, ''backup''];
          backup_dest = server_backup_path @ [timestamp]
      in
        case (case u_iterdir flt of Some e \<Rightarrow> Inl e | None \<Rightarrow> iterdir server_save_path fs) of
          Inl e \<Rightarrow> (Some e, fs)
        | Inr entries \<Rightarrow>
            (case (if entries \<noteq> [] then
                     (case (case u_move flt of
                              Some e \<Rightarrow> (Some e, fs)
                            | None \<Rightarrow> shutil_move server_save_path backup_dest fs) of
                        (Some e, fs1) \<Rightarrow> (Some e, fs1)
                      | (None, fs1) \<Rightarrow>
                          (case faulty (u_mkdir flt) (os_mkdir server_save_path) fs1 of
                             Inl e \<Rightarrow> (Some e, fs1)
                           | Inr fs2 \<Rightarrow> (None, fs2)))
                   else (None, fs)) of
               (Some e, fs2) \<Rightarrow> (Some e, fs2)
             | (None, fs2) \<Rightarrow> copytree_faulty (u_copytree flt) local_path server_save_path fs2))"

text \<open>
  \<^verbatim>\<open>upload_save\<close>: \<open>selected\<close> is the data of the selected list item (identifier and
  name of the game), if an item is selected.
\<close>

definition upload_save ::
  "upload_faults \<Rightarrow> string \<Rightarrow> bool \<times> bool \<Rightarrow> (string \<times> string) option \<Rightarrow> app
     \<Rightarrow> sync_outcome \<times> app" where
  "upload_save flt timestamp answer selected s =
     (case selected of
        None \<Rightarrow> (No_selection, s)
      | Some (game_id, game_name) \<Rightarrow>
          (case local_game_paths s game_id of
             None \<Rightarrow> (Local_path_not_set, s)
           | Some local_path_str \<Rightarrow>
               if local_path_str = [] then (Local_path_not_set, s)
               else
                 (case show_overwrite_warning_dialog answer s of
                    (False, s1) \<Rightarrow> (Cancelled, s1)
                  | (True, s1) \<Rightarrow>
                      (case upload_files flt timestamp (Path local_path_str) (server_path s1)
                              game_id (files s1) of
                         (Some e, fs') \<Rightarrow> (Failed e, s1\<lparr>files := fs'\<rparr>)
                       | (None, fs') \<Rightarrow> (Complete, s1\<lparr>files := fs'\<rparr>)))))"

record download_faults =
  d_mkdir :: "py_exn option"
  d_iterdir :: "py_exn option"
  d_copytree_backup :: "(py_exn \<times> (string \<times> node) list) option"
  d_clear :: "py_exn option"
  d_copytree_server :: "(py_exn \<times> (string \<times> node) list) option"

text \<open>The \<^verbatim>\<open>try\<close> block of \<^verbatim>\<open>download_save\<close>.\<close>

definition download_files ::
  "download_faults \<Rightarrow> string \<Rightarrow> path \<Rightarrow> path \<Rightarrow> path \<Rightarrow> string \<Rightarrow> node
     \<Rightarrow> py_exn option \<times> node" where
  "download_files flt timestamp local_path server backup_root game_id fs =
     (let server_save_path = server @ [game_id, ''save_data''];
          backup_dest = backup_root @ [game_id, timestamp]
      in
        case faulty (d_mkdir flt) (mkdir_parents backup_dest) fs of
          Inl e \<Rightarrow> (Some e, fs)
        | Inr fs1 \<Rightarrow>
            (case (case d_iterdir flt of Some e \<Rightarrow> Inl e | None \<Rightarrow> iterdir local_path fs1) of
               Inl e \<Rightarrow> (Some e, fs1)
             | Inr entries \<Rightarrow>
                 (case (if entries \<noteq> [] then
                          (case copytree_faulty (d_copytree_backup flt) local_path backup_dest fs1 of
                             (Some e, fs2) \<Rightarrow> (Some e, fs2)
                           | (None, fs2) \<Rightarrow>
                               (case faulty (d_clear flt) (clear_directory_contents local_path) fs2 of
                                  Inl e \<Rightarrow> (Some e, fs2)
                                | Inr fs3 \<Rightarrow> (None, fs3)))
                        else (None, fs1)) of
                    (Some e, fs3) \<Rightarrow> (Some e, fs3)
                  | (None, fs3) \<Rightarrow>
                      copytree_faulty (d_copytree_server flt) server_save_path local_path fs3)))"

definition download_save ::
  "download_faults \<Rightarrow> string \<Rightarrow> bool \<times> bool \<Rightarrow> (string \<times> string) option \<Rightarrow> app
     \<Rightarrow> sync_outcome \<times> app" where
  "download_save flt timestamp answer selected s =
     (case selected of
        None \<Rightarrow> (No_selection, s)
      | Some (game_id, game_name) \<Rightarrow>
          (case local_game_paths s game_id of
             None \<Rightarrow> (Local_path_not_set, s)
           | Some local_path_str \<Rightarrow>
               if local_path_str = [] then (Local_path_not_set, s)
               else
                 (case show_overwrite_warning_dialog answer s of
                    (False, s1) \<Rightarrow> (Cancelled, s1)
                  | (True, s1) \<Rightarrow>
                      (case download_files flt timestamp (Path local_path_str) (server_path s1)
                              (local_backup_root s1) game_id (files s1) of
                         (Some e, fs') \<Rightarrow> (Failed e, s1\<lparr>files := fs'\<rparr>)
                       | (None, fs') \<Rightarrow> (Complete, s1\<lparr>files := fs'\<rparr>)))))"

subsection \<open>Predicates of the specification\<close>

fun is_object :: "json \<Rightarrow> bool" where
  "is_object (JObj kv) = True"
| "is_object _ = False"

fun is_list :: "json option \<Rightarrow> bool" where
  "is_list (Some (JArr xs)) = True"
| "is_list _ = False"

text \<open>The field of a manifest entry, if the entry is an object that has it.\<close>

definition field :: "string \<Rightarrow> json \<Rightarrow> json option" where
  "field k g = (case g of JObj kv \<Rightarrow> map_of kv k | _ \<Rightarrow> None)"

text \<open>
  A game record of the data model: an object whose \<^verbatim>\<open>id\<close> and \<^verbatim>\<open>name\<close> are non-empty
  strings (the registrar rejects an empty name, and an identifier is never empty).
\<close>

definition game_record :: "json \<Rightarrow> bool" where
  "game_record g =
     (case (field ''id'' g, field ''name'' g) of
        (Some (JStr i), Some (JStr n)) \<Rightarrow> i \<noteq> [] \<and> n \<noteq> []
      | _ \<Rightarrow> False)"

text \<open>The invariant of a catalog: identifiers differ, names differ when lowered.\<close>

definition entry_name_lower :: "json \<Rightarrow> string option" where
  "entry_name_lower g = (case field ''name'' g of Some (JStr n) \<Rightarrow> Some (lower n) | _ \<Rightarrow> None)"

definition unique_ids :: "json list \<Rightarrow> bool" where
  "unique_ids catalog = distinct (map (field ''id'') catalog)"

definition unique_names :: "json list \<Rightarrow> bool" where
  "unique_names catalog = distinct (map entry_name_lower catalog)"



text \<open>The message of a registration that failed before its directories were made.\<close>

fun is_mkdir_error :: "message \<Rightarrow> bool" where
  "is_mkdir_error (Server_error_mkdir e) = True"
| "is_mkdir_error _ = False"

text \<open>
  The record \<^verbatim>\<open>add_new_game\<close> builds for a new game, and the list items the loader
  makes of it: none when the identifier or the name is empty.
\<close>

definition new_game :: "string \<Rightarrow> string \<Rightarrow> json" where
  "new_game game_id game_name = JObj [(''id'', JStr game_id), (''name'', JStr game_name)]"

definition listed :: "string \<Rightarrow> string \<Rightarrow> json list" where
  "listed game_id game_name =
     (if game_id = [] \<or> game_name = [] then [] else [new_game game_id game_name])"

subsection \<open>A small server and a local machine\<close>

text \<open>
  The server folder \<^verbatim>\<open>/srv\<close> knows one game, Celeste, whose server save holds
  \<^verbatim>\<open>a.txt\<close> with content \<^verbatim>\<open>x\<close>; the local save directory \<^verbatim>\<open>/home/celeste\<close> holds
  \<^verbatim>\<open>a.txt\<close> with content \<^verbatim>\<open>y\<close>.
\<close>

definition celeste :: json where
  "celeste = JObj [(''id'', JStr ''g1''), (''name'', JStr ''Celeste'')]"

definition celeste_manifest :: json where
  "celeste_manifest = JObj [(''games'', JArr [celeste])]"

definition example_files :: "json \<Rightarrow> node" where
  "example_files manifest =
     Dir [(''srv'',
           Dir [(''games.json'', File (Doc manifest)),
                (''g1'',
                 Dir [(''save_data'', Dir [(''a.txt'', File (Raw ''x''))]),
                      (''backup'', Dir [])])]),
          (''home'', Dir [(''celeste'', Dir [(''a.txt'', File (Raw ''y''))])])]"

text \<open>The same with further entries in the server folder, and with an empty local save.\<close>

definition example_files_with :: "json \<Rightarrow> (string \<times> node) list \<Rightarrow> node" where
  "example_files_with manifest others =
     Dir [(''srv'',
           Dir ([(''games.json'', File (Doc manifest)),
                 (''g1'',
                  Dir [(''save_data'', Dir [(''a.txt'', File (Raw ''x''))]),
                       (''backup'', Dir [])])] @ others)),
          (''home'', Dir [(''celeste'', Dir [(''a.txt'', File (Raw ''y''))])])]"

definition empty_local_files :: node where
  "empty_local_files =
     Dir [(''srv'',
           Dir [(''games.json'', File (Doc celeste_manifest)),
                (''g1'',
                 Dir [(''save_data'', Dir [(''a.txt'', File (Raw ''x''))]),
                      (''backup'', Dir [])])]),
          (''home'', Dir [(''celeste'', Dir [])])]"

text \<open>A manifest whose first entry has no \<^verbatim>\<open>name\<close>.\<close>

definition nameless_manifest :: json where
  "nameless_manifest = JObj [(''games'', JArr [JObj [(''id'', JStr ''g0'')], celeste])]"

definition example_app :: "node \<Rightarrow> app" where
  "example_app fs =
     \<lparr>files = fs, server_path = [''srv''],
      local_game_paths = [''g1'' \<mapsto> ''/home/celeste''],
      local_backup_root = [''home'', ''backups''],
      show_overwrite_warning = False\<rparr>"

definition no_add_faults :: add_faults where
  "no_add_faults =
     \<lparr>a_mkdir_save_data = None, a_mkdir_backup = None, a_read = None,
      a_rmtree_duplicate = None, a_write_temp = None, a_rename = None,
      a_rmtree_rollback = None\<rparr>"

definition no_upload_faults :: upload_faults where
  "no_upload_faults = \<lparr>u_iterdir = None, u_move = None, u_mkdir = None, u_copytree = None\<rparr>"

definition no_download_faults :: download_faults where
  "no_download_faults =
     \<lparr>d_mkdir = None, d_iterdir = None, d_copytree_backup = None, d_clear = None,
      d_copytree_server = None\<rparr>"

text \<open>The example after one upload of the game.\<close>

definition uploaded_once :: app where
  "uploaded_once =
     snd (upload_save no_upload_faults ''2026-01-01_10-00-00'' (True, False)
            (Some (''g1'', ''Celeste'')) (example_app (example_files celeste_manifest)))"

section \<open>Unfolding the model on concrete inputs\<close>

lemmas fs_defs = mkdir_parents_def os_mkdir_def rmtree_def os_remove_def open_r_def json_load_def
  write_file_def os_rename_def is_dir_def iterdir_def copytree_def shutil_move_def faulty_def
  write_file_faulty_def copytree_faulty_def clear_directory_contents_def

lemmas app_defs = add_new_game_def update_games_json_def write_games_json_def existing_names_def
  append_game_def py_iter_def games_json_path_def games_json_temp_path_def
  load_games_from_json_def read_games_list_def py_not_def
  upload_save_def upload_files_def download_save_def download_files_def
  show_overwrite_warning_dialog_def Path_def lower_def lower_char_def

lemmas example_defs = listed_def example_app_def example_files_def example_files_with_def
  empty_local_files_def celeste_manifest_def nameless_manifest_def celeste_def
  no_add_faults_def no_upload_faults_def no_download_faults_def new_game_def

section \<open>Properties of the filesystem tree\<close>

lemma apart_Nil [simp]: "\<not> apart [] q" "\<not> apart p []"
  by (simp_all add: apart_def)

lemma apart_Cons [simp]: "apart (x # p) (y # q) \<longleftrightarrow> x \<noteq> y \<or> apart p q"
  by (auto simp: apart_def)

lemma apart_sym: "apart p q \<Longrightarrow> apart q p"
  by (auto simp: apart_def)

lemma apart_append_same [simp]: "apart (r @ p) (r @ q) \<longleftrightarrow> apart p q"
  by (induction r) auto

lemma apart_below: "apart p q \<Longrightarrow> apart (p @ r) q"
proof (induction p arbitrary: q)
  case Nil
  then show ?case by simp
next
  case (Cons x p)
  then show ?case by (cases q) auto
qed

lemma lookup_empty_dir: "q \<noteq> [] \<Longrightarrow> lookup q (Dir []) = None"
  by (cases q) auto

lemma apart_lookup_empty_dir [simp]: "apart p q \<Longrightarrow> lookup q (Dir []) = None"
  by (cases q) auto


lemma lookup_append:
  "lookup (p @ q) n = (case lookup p n of None \<Rightarrow> None | Some m \<Rightarrow> lookup q m)"
  by (induction p arbitrary: n) (auto split: node.splits option.splits)

lemma put_same: "put p v n = Some n' \<Longrightarrow> lookup p n' = Some v"
  by (induction p arbitrary: n n')
     (auto simp: update_conv' split: node.splits option.splits if_splits)

lemma put_apart: "put p v n = Some n' \<Longrightarrow> apart p q \<Longrightarrow> lookup q n' = lookup q n"
proof (induction p arbitrary: n n' q)
  case Nil
  then show ?case by simp
next
  case (Cons x p)
  then show ?case
    by (cases q) (auto simp: update_conv' split: node.splits option.splits if_splits)
qed

lemma remove_same: "remove p n = Some n' \<Longrightarrow> lookup p n' = None"
  by (induction p arbitrary: n n')
     (auto simp: update_conv' delete_conv' split: node.splits option.splits if_splits)

lemma remove_apart: "remove p n = Some n' \<Longrightarrow> apart p q \<Longrightarrow> lookup q n' = lookup q n"
proof (induction p arbitrary: n n' q)
  case Nil
  then show ?case by simp
next
  case (Cons x p)
  then show ?case
    by (cases q) (auto simp: update_conv' delete_conv' split: node.splits option.splits if_splits)
qed

lemma makedirs_apart: "makedirs p n = Some n' \<Longrightarrow> apart p q \<Longrightarrow> lookup q n' = lookup q n"
proof (induction p arbitrary: n n' q)
  case Nil
  then show ?case by simp
next
  case (Cons x p)
  then show ?case
    by (cases q) (auto simp: update_conv' split: node.splits option.splits if_splits)
qed


lemma makedirs_existing: "lookup p n = Some (Dir es) \<Longrightarrow> makedirs p n = Some n"
  by (induction p arbitrary: n)
     (auto simp: update_triv split: node.splits option.splits if_splits)



lemma put_ok: "is_dir p n \<Longrightarrow> \<exists>n'. put (p @ [x]) v n = Some n'"
  by (induction p arbitrary: n)
     (fastforce simp: is_dir_def split: node.splits option.splits if_splits)+

lemma remove_ok: "p \<noteq> [] \<Longrightarrow> lookup p n = Some v \<Longrightarrow> \<exists>n'. remove p n = Some n'"
  by (induction p arbitrary: n)
     (fastforce split: node.splits option.splits if_splits)+

section \<open>Properties of the system calls\<close>

lemma apart_siblings [simp]: "a \<noteq> b \<Longrightarrow> apart (sp @ a # r) (sp @ b # r')"
  by (induction sp) auto

lemma makedirs_result_dir: "makedirs q n = Some n' \<Longrightarrow> \<exists>es. n' = Dir es"
  by (cases q) (auto split: node.splits option.splits)

lemma makedirs_prefix_dir: "makedirs (p @ q) n = Some n' \<Longrightarrow> \<exists>es. lookup p n' = Some (Dir es)"
proof (induction p arbitrary: n n')
  case Nil
  then show ?case using makedirs_result_dir by simp
next
  case (Cons x p)
  then show ?case
    by (fastforce simp: update_conv' split: node.splits option.splits)
qed

lemma makedirs_prefix_is_dir: "makedirs (p @ q) n = Some n' \<Longrightarrow> is_dir p n'"
  using makedirs_prefix_dir [of p q n n'] by (auto simp: is_dir_def)

lemma mkdir_parents_Inr: "mkdir_parents p fs = Inr fs' \<Longrightarrow> makedirs p fs = Some fs'"
  by (auto simp: mkdir_parents_def split: option.splits node.splits)

lemma write_file_Inr: "write_file p c fs = Inr fs' \<Longrightarrow> put p (File c) fs = Some fs'"
  by (auto simp: write_file_def split: option.splits node.splits)

lemma rmtree_Inr: "rmtree p fs = Inr fs' \<Longrightarrow> remove p fs = Some fs'"
  by (auto simp: rmtree_def split: option.splits node.splits)

lemma rmtree_ok: "p \<noteq> [] \<Longrightarrow> is_dir p fs \<Longrightarrow> \<exists>fs'. rmtree p fs = Inr fs'"
  using remove_ok [of p fs]
  by (auto simp: rmtree_def is_dir_def split: option.splits node.splits)

lemma rename_file_Inr:
  assumes "os_rename src dst fs = Inr fs'" "lookup src fs = Some (File c)" "apart src dst"
  shows "lookup dst fs' = Some (File c) \<and> lookup src fs' = None
       \<and> (\<forall>q. apart q src \<and> apart q dst \<longrightarrow> lookup q fs' = lookup q fs)"
proof -
  from assms have ne: "src \<noteq> dst" by (auto simp: apart_def)
  from assms ne obtain fs1 where p: "put dst (File c) fs = Some fs1" and r: "remove src fs1 = Some fs'"
    by (auto simp: os_rename_def split: if_splits option.splits)
  have "lookup dst fs' = lookup dst fs1" using remove_apart [OF r] assms(3) by simp
  moreover have "lookup dst fs1 = Some (File c)" using put_same [OF p] .
  moreover have "lookup src fs' = None" using remove_same [OF r] .
  moreover have "lookup q fs' = lookup q fs" if "apart q src" "apart q dst" for q
    using remove_apart [OF r, of q] put_apart [OF p, of q] that by (simp add: apart_sym)
  ultimately show ?thesis by simp
qed

lemma write_games_json_ok:
  assumes "write_games_json flt (sp @ [''games.json.tmp'']) (sp @ [''games.json'']) data fs = (None, fs')"
  shows "lookup (sp @ [''games.json'']) fs' = Some (File (Doc data))
       \<and> lookup (sp @ [''games.json.tmp'']) fs' = None
       \<and> (\<forall>q. apart q (sp @ [''games.json.tmp'']) \<and> apart q (sp @ [''games.json''])
              \<longrightarrow> lookup q fs' = lookup q fs)"
proof -
  let ?tmp = "sp @ [''games.json.tmp'']" and ?jp = "sp @ [''games.json'']"
  from assms obtain fs1 where w: "write_file ?tmp (Doc data) fs = Inr fs1"
    and r: "os_rename ?tmp ?jp fs1 = Inr fs'"
    by (auto simp: write_games_json_def write_file_faulty_def faulty_def
             split: option.splits sum.splits prod.splits)
  have p: "put ?tmp (File (Doc data)) fs = Some fs1" using write_file_Inr [OF w] .
  have l: "lookup ?tmp fs1 = Some (File (Doc data))" using put_same [OF p] .
  have a: "apart ?tmp ?jp" by simp
  from rename_file_Inr [OF r l a] put_apart [OF p] show ?thesis
    by (auto simp: apart_sym)
qed

lemma write_games_json_failed:
  assumes "write_games_json flt tmp jp data fs = (Some e, fs')"
  shows "fs' = fs \<or> (\<exists>c. put tmp (File c) fs = Some fs' \<and> \<not> is_dir tmp fs)"
  using assms
  by (auto simp: write_games_json_def write_file_faulty_def faulty_def write_file_def is_dir_def
           split: option.splits sum.splits prod.splits node.splits)

section \<open>Properties of the manifest operations\<close>

lemma load_of_doc:
  "lookup (games_json_path s) (files s) = Some (File (Doc (JObj kv))) \<Longrightarrow>
   map_of kv ''games'' = Some (JArr gs) \<Longrightarrow> list_items gs = Inr items \<Longrightarrow>
   load_games_from_json None s = Inr items"
  by (simp add: load_games_from_json_def read_games_list_def open_r_def json_load_def)

lemma read_games_list_InrD:
  "read_games_list None s = Inr gs \<Longrightarrow>
   \<exists>kv. lookup (games_json_path s) (files s) = Some (File (Doc (JObj kv)))
       \<and> map_of kv ''games'' = Some (JArr gs)"
  by (auto simp: read_games_list_def open_r_def json_load_def
           split: option.splits node.splits content.splits parser_limit.splits json.splits
                  sum.splits)

lemma load_InrD:
  assumes "load_games_from_json None s = Inr c"
  shows "\<exists>kv gs. lookup (games_json_path s) (files s) = Some (File (Doc (JObj kv)))
         \<and> map_of kv ''games'' = Some (JArr gs) \<and> list_items gs = Inr c"
proof -
  from assms obtain gs where r: "read_games_list None s = Inr gs" and l: "list_items gs = Inr c"
    by (auto simp: load_games_from_json_def split: sum.splits py_exn.splits)
  from read_games_list_InrD [OF r] l show ?thesis by blast
qed

lemma load_Inr_cong:
  assumes "lookup (games_json_path s') (files s') = lookup (games_json_path s) (files s)"
    and "load_games_from_json None s = Inr c"
  shows "load_games_from_json None s' = Inr c"
proof -
  from load_InrD [OF assms(2)] obtain kv gs where
    "lookup (games_json_path s) (files s) = Some (File (Doc (JObj kv)))"
    "map_of kv ''games'' = Some (JArr gs)" "list_items gs = Inr c" by blast
  with assms(1) load_of_doc [of s' kv gs c] show ?thesis by simp
qed

lemma existing_names_InrD:
  "existing_names d = Inr ns \<Longrightarrow> append_game d new = Inr d' \<Longrightarrow>
   \<exists>kv gs. d = JObj kv \<and> map_of kv ''games'' = Some (JArr gs) \<and> names_lower gs = Inr ns
          \<and> d' = JObj (AList.update ''games'' (JArr (gs @ [new])) kv)"
  by (auto simp: existing_names_def append_game_def py_iter_def
           split: json.splits option.splits sum.splits)

lemma add_registeredD:
  assumes "add_new_game flt gid (Some (name, lp)) s = (Registered, s')"
  shows "\<exists>fs1 fs2 kv gs ns.
     makedirs (server_path s @ [gid, ''save_data'']) (files s) = Some fs1
   \<and> makedirs (server_path s @ [gid, ''backup'']) fs1 = Some fs2
   \<and> lookup (games_json_path s) fs2 = Some (File (Doc (JObj kv)))
   \<and> map_of kv ''games'' = Some (JArr gs)
   \<and> names_lower gs = Inr ns \<and> lower name \<notin> set ns
   \<and> write_games_json flt (games_json_temp_path s) (games_json_path s)
        (JObj (AList.update ''games''
           (JArr (gs @ [JObj [(''id'', JStr gid), (''name'', JStr name)]])) kv)) fs2
      = (None, files s')
   \<and> s' = s\<lparr>files := files s'\<rparr>"
proof -
  from assms obtain fs1 where m1: "mkdir_parents (server_path s @ [gid, ''save_data'']) (files s) = Inr fs1"
    by (auto simp: add_new_game_def Let_def faulty_def split: sum.splits option.splits)
  from assms m1 obtain fs2 where m2: "mkdir_parents (server_path s @ [gid, ''backup'']) fs1 = Inr fs2"
    by (auto simp: add_new_game_def Let_def faulty_def split: sum.splits option.splits)
  from assms m1 m2 obtain fs3 where u: "update_games_json flt (games_json_path s) (games_json_temp_path s)
       (server_path s @ [gid]) name (JObj [(''id'', JStr gid), (''name'', JStr name)]) fs2 = Completed fs3"
    and s': "s' = s\<lparr>files := fs3\<rparr>"
    by (auto simp: add_new_game_def Let_def faulty_def split: sum.splits option.splits attempt.splits)
  from u obtain d ns d' where r: "open_r (games_json_path s) fs2 = Inr (Doc d)"
    and e: "existing_names d = Inr ns" and n: "lower name \<notin> set ns"
    and a: "append_game d (JObj [(''id'', JStr gid), (''name'', JStr name)]) = Inr d'"
    and w: "write_games_json flt (games_json_temp_path s) (games_json_path s) d' fs2 = (None, fs3)"
    by (auto simp: update_games_json_def json_load_def
             split: sum.splits option.splits if_splits prod.splits content.splits
                    parser_limit.splits)
  from existing_names_InrD [OF e a] obtain kv gs where
    d: "d = JObj kv" "map_of kv ''games'' = Some (JArr gs)" "names_lower gs = Inr ns"
       "d' = JObj (AList.update ''games'' (JArr (gs @ [JObj [(''id'', JStr gid), (''name'', JStr name)]])) kv)"
    by blast
  from r have l: "lookup (games_json_path s) fs2 = Some (File (Doc d))"
    by (auto simp: open_r_def split: option.splits node.splits)
  show ?thesis
    using mkdir_parents_Inr [OF m1] mkdir_parents_Inr [OF m2] l d n w s' by auto
qed

lemma add_registered_manifest:
  assumes "add_new_game flt gid (Some (name, lp)) s = (Registered, s')"
  shows "\<exists>kv gs ns.
     lookup (games_json_path s) (files s) = Some (File (Doc (JObj kv)))
   \<and> map_of kv ''games'' = Some (JArr gs)
   \<and> names_lower gs = Inr ns \<and> lower name \<notin> set ns
   \<and> lookup (games_json_path s) (files s')
       = Some (File (Doc (JObj (AList.update ''games'' (JArr (gs @ [new_game gid name])) kv))))
   \<and> s' = s\<lparr>files := files s'\<rparr>"
proof -
  let ?sp = "server_path s"
  from add_registeredD [OF assms] obtain fs1 fs2 kv gs ns where
    m1: "makedirs (?sp @ [gid, ''save_data'']) (files s) = Some fs1"
    and m2: "makedirs (?sp @ [gid, ''backup'']) fs1 = Some fs2"
    and l: "lookup (games_json_path s) fs2 = Some (File (Doc (JObj kv)))"
    and g: "map_of kv ''games'' = Some (JArr gs)" "names_lower gs = Inr ns" "lower name \<notin> set ns"
    and w: "write_games_json flt (games_json_temp_path s) (games_json_path s)
        (JObj (AList.update ''games''
           (JArr (gs @ [JObj [(''id'', JStr gid), (''name'', JStr name)]])) kv)) fs2
      = (None, files s')"
    and s': "s' = s\<lparr>files := files s'\<rparr>" by blast
  have "is_dir (?sp @ [gid]) fs2"
    using makedirs_prefix_is_dir [of "?sp @ [gid]" "[''backup'']" fs1 fs2] m2 by simp
  with l have ne: "gid \<noteq> ''games.json''"
    by (auto simp: is_dir_def games_json_path_def)
  have "lookup (games_json_path s) fs2 = lookup (games_json_path s) fs1"
    using makedirs_apart [OF m2, of "games_json_path s"] ne by (simp add: games_json_path_def)
  also have "\<dots> = lookup (games_json_path s) (files s)"
    using makedirs_apart [OF m1, of "games_json_path s"] ne by (simp add: games_json_path_def)
  finally have l0: "lookup (games_json_path s) (files s) = Some (File (Doc (JObj kv)))"
    using l by simp
  from write_games_json_ok [of flt ?sp _ fs2 "files s'"] w
  have "lookup (games_json_path s) (files s')
       = Some (File (Doc (JObj (AList.update ''games'' (JArr (gs @ [new_game gid name])) kv))))"
    by (simp add: games_json_path_def games_json_temp_path_def new_game_def)
  with l0 g s' show ?thesis by blast
qed

lemma list_items_append:
  "list_items xs = Inr a \<Longrightarrow> list_items ys = Inr b \<Longrightarrow> list_items (xs @ ys) = Inr (a @ b)"
  by (induction xs arbitrary: a) (auto split: json.splits if_splits sum.splits)

lemma list_items_new_game: "list_items [new_game gid name] = Inr (listed gid name)"
  by (simp add: new_game_def listed_def py_not_def)

lemma list_items_subset: "list_items gs = Inr c \<Longrightarrow> set c \<subseteq> set gs"
  by (induction gs arbitrary: c) (auto split: json.splits if_splits sum.splits)

lemma names_lower_map: "names_lower gs = Inr ns \<Longrightarrow> map entry_name_lower gs = map Some ns"
  by (induction gs arbitrary: ns)
     (auto simp: entry_name_lower_def field_def split: json.splits option.splits sum.splits)

lemma list_items_game_records: "list_all game_record gs \<Longrightarrow> list_items gs = Inr gs"
  by (induction gs)
     (auto simp: game_record_def field_def py_not_def split: json.splits option.splits)

lemma list_items_filter:
  "list_items gs = Inr c \<Longrightarrow>
   c = filter (\<lambda>g. is_object g \<and> \<not> py_not (field ''id'' g) \<and> \<not> py_not (field ''name'' g)) gs"
proof (induction gs arbitrary: c)
  case Nil
  then show ?case by simp
next
  case (Cons g gs)
  then show ?case
    by (cases g) (auto simp: field_def split: if_splits sum.splits)
qed

lemma registered_catalog:
  assumes "add_new_game flt gid (Some (name, lp)) s = (Registered, s')"
    and "load_games_from_json None s = Inr catalog"
  shows "load_games_from_json None s' = Inr (catalog @ listed gid name)
       \<and> Some (lower name) \<notin> set (map entry_name_lower catalog)"
proof -
  from add_registered_manifest [OF assms(1)] obtain kv gs ns where
    l0: "lookup (games_json_path s) (files s) = Some (File (Doc (JObj kv)))"
    and g: "map_of kv ''games'' = Some (JArr gs)" "names_lower gs = Inr ns" "lower name \<notin> set ns"
    and l1: "lookup (games_json_path s) (files s')
       = Some (File (Doc (JObj (AList.update ''games'' (JArr (gs @ [new_game gid name])) kv))))"
    and s': "s' = s\<lparr>files := files s'\<rparr>" by blast
  from load_InrD [OF assms(2)] l0 g(1) have c: "list_items gs = Inr catalog" by auto
  have jp: "games_json_path s' = games_json_path s"
    by (subst s') (simp add: games_json_path_def)
  have "list_items (gs @ [new_game gid name]) = Inr (catalog @ listed gid name)"
    using list_items_append [OF c list_items_new_game] .
  then have "load_games_from_json None s' = Inr (catalog @ listed gid name)"
    using load_of_doc [of s' "AList.update ''games'' (JArr (gs @ [new_game gid name])) kv"
                             "gs @ [new_game gid name]"] l1 jp
    by (simp add: update_conv')
  moreover have "set (map entry_name_lower catalog) \<subseteq> Some ` set ns"
  proof -
    have "entry_name_lower ` set catalog \<subseteq> entry_name_lower ` set gs"
      using list_items_subset [OF c] by blast
    also have "\<dots> = set (map entry_name_lower gs)" by simp
    also have "\<dots> = Some ` set ns" by (simp only: names_lower_map [OF g(2)] set_map)
    finally show ?thesis by simp
  qed
  ultimately show ?thesis using g(3) by auto
qed

lemma makedirs_ok:
  "is_dir p n \<Longrightarrow> lookup (p @ [x]) n = None \<Longrightarrow> \<exists>n'. makedirs (p @ x # r) n = Some n'"
proof (induction p arbitrary: n)
  case Nil
  have "\<exists>n'. makedirs r (Dir []) = Some n'"
    by (induction r) (auto split: option.splits)
  with Nil show ?case
    by (auto simp: is_dir_def split: node.splits option.splits)
next
  case (Cons y p)
  then show ?case
    by (fastforce simp: is_dir_def split: node.splits option.splits)
qed

lemma makedirs_not_file: "makedirs p n = Some n' \<Longrightarrow> lookup p n \<noteq> Some (File c)"
  by (induction p arbitrary: n n') (auto split: node.splits option.splits)

lemma mkdir_parents_ok:
  "makedirs p fs = Some fs' \<Longrightarrow> mkdir_parents p fs = Inr fs'"
  using makedirs_not_file [of p fs fs']
  by (auto simp: mkdir_parents_def split: option.splits node.splits)

lemma update_games_json_Return:
  assumes "update_games_json flt jp tmp gdir name new fs = Return_in_try ms fs'"
  shows "ms = [Duplicate_game] \<and> faulty (a_rmtree_duplicate flt) (rmtree gdir) fs = Inr fs'"
  using assms
  by (auto simp: update_games_json_def split: sum.splits option.splits if_splits prod.splits)

lemma update_games_json_Raised:
  assumes "update_games_json flt jp tmp gdir name new fs = Raised ms e fs'"
  shows "fs' = fs \<or> (\<exists>c. put tmp (File c) fs = Some fs' \<and> \<not> is_dir tmp fs)"
  using assms write_games_json_failed [of flt tmp jp _ fs e fs']
  by (auto simp: update_games_json_def split: sum.splits option.splits if_splits prod.splits)

lemma rollback_removes:
  assumes d: "is_dir (sp @ [gid]) fs2"
    and f: "fs3 = fs2 \<or> (\<exists>c. put (sp @ [''games.json.tmp'']) (File c) fs2 = Some fs3
                          \<and> \<not> is_dir (sp @ [''games.json.tmp'']) fs2)"
  shows "\<exists>fs4. rmtree (sp @ [gid]) fs3 = Inr fs4 \<and> lookup (sp @ [gid]) fs4 = None
       \<and> (\<forall>q. apart q (sp @ [gid]) \<and> apart q (sp @ [''games.json.tmp''])
              \<longrightarrow> lookup q fs4 = lookup q fs2)"
proof -
  have d3: "is_dir (sp @ [gid]) fs3 \<and> (\<forall>q. apart q (sp @ [''games.json.tmp'']) \<longrightarrow> lookup q fs3 = lookup q fs2)"
  proof (cases "fs3 = fs2")
    case True
    with d show ?thesis by simp
  next
    case False
    with f obtain c where p: "put (sp @ [''games.json.tmp'']) (File c) fs2 = Some fs3"
      and nd: "\<not> is_dir (sp @ [''games.json.tmp'']) fs2" by blast
    from d nd have "gid \<noteq> ''games.json.tmp''" by auto
    then have "apart (sp @ [''games.json.tmp'']) (sp @ [gid])" by simp
    with put_apart [OF p] d show ?thesis by (auto simp: is_dir_def apart_sym)
  qed
  then obtain fs4 where r: "rmtree (sp @ [gid]) fs3 = Inr fs4"
    using rmtree_ok [of "sp @ [gid]" fs3] by auto
  have "lookup (sp @ [gid]) fs4 = None" using remove_same [OF rmtree_Inr [OF r]] .
  moreover have "lookup q fs4 = lookup q fs2"
    if "apart q (sp @ [gid])" "apart q (sp @ [''games.json.tmp''])" for q
    using remove_apart [OF rmtree_Inr [OF r], of q] that d3 by (simp add: apart_sym)
  ultimately show ?thesis using r by blast
qed

section \<open>Rollback of a failed registration\<close>

lemma failed_registration_rolled_back:
  assumes r: "add_new_game flt gid (Some (name, lp)) s = (Returned ms, s')"
    and nm: "\<not> list_ex is_mkdir_error ms"
    and nf: "a_rmtree_duplicate flt = None" "a_rmtree_rollback flt = None"
    and fresh: "lookup (server_path s @ [gid]) (files s) = None"
  shows "lookup (server_path s @ [gid]) (files s') = None
       \<and> lookup (games_json_path s) (files s') = lookup (games_json_path s) (files s)
       \<and> s' = s\<lparr>files := files s'\<rparr>"
proof -
  let ?sp = "server_path s"
  let ?gd = "?sp @ [gid]"
  let ?tmp = "?sp @ [''games.json.tmp'']"
  let ?jp = "?sp @ [''games.json'']"
  let ?u = "\<lambda>fs. update_games_json flt (games_json_path s) (games_json_temp_path s) ?gd name
              (JObj [(''id'', JStr gid), (''name'', JStr name)]) fs"
  from r nm obtain fs1 where f1: "a_mkdir_save_data flt = None"
    and m1: "mkdir_parents (?gd @ [''save_data'']) (files s) = Inr fs1"
    by (auto simp: add_new_game_def Let_def faulty_def split: sum.splits option.splits)
  from r nm f1 m1 obtain fs2 where f2: "a_mkdir_backup flt = None"
    and m2: "mkdir_parents (?gd @ [''backup'']) fs1 = Inr fs2"
    by (auto simp: add_new_game_def Let_def faulty_def split: sum.splits option.splits)
  have eq: "add_new_game flt gid (Some (name, lp)) s =
     (case ?u fs2 of
        Completed fs3 \<Rightarrow> (Registered, s\<lparr>files := fs3\<rparr>)
      | Return_in_try ms fs3 \<Rightarrow> (Returned ms, s\<lparr>files := fs3\<rparr>)
      | Raised ms e fs3 \<Rightarrow>
          (case faulty (a_rmtree_rollback flt) (rmtree ?gd) fs3 of
             Inr fs4 \<Rightarrow> (Returned (ms @ [Server_error_update e]), s\<lparr>files := fs4\<rparr>)
           | Inl e_roll \<Rightarrow>
               (Returned (ms @ [Server_error_update e, Rollback_error e_roll]),
                s\<lparr>files := fs3\<rparr>)))"
    using f1 f2 m1 m2 by (simp add: add_new_game_def Let_def faulty_def)
  have d: "is_dir ?gd fs2"
    using makedirs_prefix_is_dir [of ?gd "[''backup'']" fs1 fs2] mkdir_parents_Inr [OF m2] by simp
  have frame: "lookup q fs2 = lookup q (files s)" if "apart q ?gd" for q
  proof -
    have "apart (?gd @ [''backup'']) q" "apart (?gd @ [''save_data'']) q"
      using apart_below [OF apart_sym [OF that], of "[''backup'']"]
            apart_below [OF apart_sym [OF that], of "[''save_data'']"] by simp_all
    with makedirs_apart [OF mkdir_parents_Inr [OF m2], of q]
         makedirs_apart [OF mkdir_parents_Inr [OF m1], of q]
    show ?thesis by simp
  qed
  have fin: "\<exists>fs4. files s' = fs4 \<and> s' = s\<lparr>files := fs4\<rparr> \<and> lookup ?gd fs4 = None
       \<and> (\<forall>q. apart q ?gd \<and> apart q ?tmp \<longrightarrow> lookup q fs4 = lookup q fs2)"
  proof (cases "?u fs2")
    case (Completed fs3)
    with r eq show ?thesis by simp
  next
    case (Return_in_try ms' fs3)
    from update_games_json_Return [OF Return_in_try] nf
    have rm: "rmtree ?gd fs2 = Inr fs3" by (simp add: faulty_def)
    from rollback_removes [of ?sp gid fs2 fs2] d rm
    have "lookup ?gd fs3 = None
       \<and> (\<forall>q. apart q ?gd \<and> apart q ?tmp \<longrightarrow> lookup q fs3 = lookup q fs2)" by simp
    moreover from r eq Return_in_try have "s' = s\<lparr>files := fs3\<rparr>" by simp
    ultimately show ?thesis by simp
  next
    case (Raised ms' e fs3)
    from update_games_json_Raised [OF Raised]
    have "fs3 = fs2 \<or> (\<exists>c. put ?tmp (File c) fs2 = Some fs3 \<and> \<not> is_dir ?tmp fs2)"
      by (simp add: games_json_temp_path_def)
    from rollback_removes [OF d this] obtain fs4 where
      rm: "rmtree ?gd fs3 = Inr fs4" and l: "lookup ?gd fs4 = None"
      "\<forall>q. apart q ?gd \<and> apart q ?tmp \<longrightarrow> lookup q fs4 = lookup q fs2" by blast
    from r eq Raised rm nf have "s' = s\<lparr>files := fs4\<rparr>"
      by (simp add: faulty_def)
    with l show ?thesis by simp
  qed
  then obtain fs4 where s': "files s' = fs4" "s' = s\<lparr>files := fs4\<rparr>" and g: "lookup ?gd fs4 = None"
    and fr: "\<forall>q. apart q ?gd \<and> apart q ?tmp \<longrightarrow> lookup q fs4 = lookup q fs2" by blast
  have "lookup ?jp fs4 = lookup ?jp (files s)"
  proof (cases "gid = ''games.json''")
    case True
    with g fresh show ?thesis by simp
  next
    case False
    then have "apart ?jp ?gd" "apart ?jp ?tmp" by simp_all
    with fr frame show ?thesis by simp
  qed
  with s' g show ?thesis by (simp add: games_json_path_def)
qed

lemma lookup_parent_is_dir: "lookup (p @ [x]) n = Some v \<Longrightarrow> is_dir p n"
  by (auto simp: lookup_append is_dir_def split: option.splits node.splits)

lemma lookup_below_None: "lookup p n = None \<Longrightarrow> lookup (p @ r) n = None"
  by (simp add: lookup_append)

lemma makedirs_ok_child:
  "is_dir p n \<Longrightarrow> \<forall>c. lookup (p @ [x]) n \<noteq> Some (File c) \<Longrightarrow>
   \<exists>n'. makedirs (p @ [x]) n = Some n'"
proof (induction p arbitrary: n)
  case Nil
  then show ?case
    by (auto simp: is_dir_def split: node.splits option.splits)
next
  case (Cons y p)
  then show ?case
    by (fastforce simp: is_dir_def split: node.splits option.splits)
qed

lemma names_lower_append:
  "names_lower gs = Inr ns \<Longrightarrow> names_lower (gs @ [new_game gid name]) = Inr (ns @ [lower name])"
  by (induction gs arbitrary: ns)
     (auto simp: new_game_def split: json.splits option.splits sum.splits)

lemma second_registration_duplicate:
  assumes first: "add_new_game flt1 id1 (Some (name, lp1)) s = (Registered, s1)"
    and nf: "a_mkdir_save_data flt2 = None" "a_mkdir_backup flt2 = None" "a_read flt2 = None"
            "a_rmtree_duplicate flt2 = None"
    and same: "lower name2 = lower name"
    and fresh: "lookup (server_path s1 @ [id2]) (files s1) = None"
  shows "\<exists>s2. add_new_game flt2 id2 (Some (name2, lp2)) s1 = (Returned [Duplicate_game], s2)
            \<and> lookup (games_json_path s1) (files s2) = lookup (games_json_path s1) (files s1)
            \<and> lookup (server_path s1 @ [id2]) (files s2) = None
            \<and> s2 = s1\<lparr>files := files s2\<rparr>"
proof -
  let ?sp = "server_path s1"
  let ?gd = "?sp @ [id2]"
  let ?jp = "?sp @ [''games.json'']"
  from add_registered_manifest [OF first] obtain kv gs ns where
    g: "map_of kv ''games'' = Some (JArr gs)" "names_lower gs = Inr ns"
    and l1: "lookup (games_json_path s) (files s1)
       = Some (File (Doc (JObj (AList.update ''games'' (JArr (gs @ [new_game id1 name])) kv))))"
    and s1: "s1 = s\<lparr>files := files s1\<rparr>" by blast
  have sp: "server_path s1 = server_path s" by (subst s1) simp
  have l1': "lookup ?jp (files s1)
       = Some (File (Doc (JObj (AList.update ''games'' (JArr (gs @ [new_game id1 name])) kv))))"
    using l1 sp by (simp add: games_json_path_def)
  have dsp: "is_dir ?sp (files s1)" using lookup_parent_is_dir [OF l1'] .
  from makedirs_ok [OF dsp fresh, of "[''save_data'']"] obtain fs1 where
    m1: "makedirs (?gd @ [''save_data'']) (files s1) = Some fs1" by auto
  have d1: "is_dir ?gd fs1" using makedirs_prefix_is_dir [OF m1] .
  have "lookup (?gd @ [''backup'']) fs1 = lookup (?gd @ [''backup'']) (files s1)"
    using makedirs_apart [OF m1, of "?gd @ [''backup'']"] by simp
  then have "lookup (?gd @ [''backup'']) fs1 = None"
    using lookup_below_None [OF fresh] by simp
  with makedirs_ok_child [OF d1, of "''backup''"] obtain fs2 where
    m2: "makedirs (?gd @ [''backup'']) fs1 = Some fs2" by auto
  have d2: "is_dir ?gd fs2" using makedirs_prefix_is_dir [OF m2] .
  from fresh l1' have ne: "id2 \<noteq> ''games.json''" by auto
  have "lookup ?jp fs2 = lookup ?jp fs1"
    using makedirs_apart [OF m2, of ?jp] ne by simp
  also have "\<dots> = lookup ?jp (files s1)"
    using makedirs_apart [OF m1, of ?jp] ne by simp
  finally have l2: "lookup ?jp fs2
       = Some (File (Doc (JObj (AList.update ''games'' (JArr (gs @ [new_game id1 name])) kv))))"
    using l1' by simp
  from rollback_removes [of ?sp id2 fs2 fs2] d2 obtain fs3 where
    rm: "rmtree ?gd fs2 = Inr fs3" and g3: "lookup ?gd fs3 = None"
    and fr: "\<forall>q. apart q ?gd \<and> apart q (?sp @ [''games.json.tmp'']) \<longrightarrow> lookup q fs3 = lookup q fs2"
    by auto
  have u: "update_games_json flt2 (games_json_path s1) (games_json_temp_path s1) ?gd name2
              (JObj [(''id'', JStr id2), (''name'', JStr name2)]) fs2
           = Return_in_try [Duplicate_game] fs3"
    using l2 nf rm names_lower_append [OF g(2), of id1 name] same
    by (simp add: update_games_json_def games_json_path_def open_r_def json_load_def
          existing_names_def update_conv' py_iter_def faulty_def)
  have "add_new_game flt2 id2 (Some (name2, lp2)) s1 = (Returned [Duplicate_game], s1\<lparr>files := fs3\<rparr>)"
    using nf mkdir_parents_ok [OF m1] mkdir_parents_ok [OF m2] u
    by (simp add: add_new_game_def Let_def faulty_def)
  moreover have "lookup ?jp fs3 = lookup ?jp (files s1)"
    using fr ne l2 l1' by simp
  ultimately show ?thesis using g3 by (simp add: games_json_path_def)
qed

section \<open>Properties of tree copies and of clearing a directory\<close>

lemma update_fresh: "x \<notin> fst ` set al \<Longrightarrow> AList.update x v al = al @ [(x, v)]"
  by (induction al) auto

lemma wf_entries_Cons:
  "wf_entries ((x, v) # es) \<longleftrightarrow> x \<notin> fst ` set es \<and> wf v \<and> wf_entries es"
  by (cases v) simp_all

lemma wf_entries_child: "wf_entries es \<Longrightarrow> map_of es x = Some c \<Longrightarrow> wf c"
proof (induction es)
  case Nil
  then show ?case by simp
next
  case (Cons e es)
  obtain y v where e: "e = (y, v)" by (cases e)
  with Cons show ?case by (auto simp: wf_entries_Cons split: if_splits)
qed

lemma wf_lookup: "wf n \<Longrightarrow> lookup p n = Some m \<Longrightarrow> wf m"
proof (induction p arbitrary: n)
  case Nil
  then show ?case by simp
next
  case (Cons x p)
  then show ?case
    by (auto split: node.splits option.splits dest: wf_entries_child)
qed

lemma copytree_node_fresh:
  "wf_entries es \<Longrightarrow> fst ` set es \<inter> fst ` set ds = {} \<Longrightarrow>
   copytree_node es ds = (True, ds @ es)"
proof (induction es ds rule: copytree_node.induct)
  case (1 ds)
  then show ?case by simp
next
  case (2 x c es ds)
  from "2.prems" have nx: "x \<notin> fst ` set ds" by auto
  then have m: "map_of ds x = None" by (simp add: map_of_eq_None_iff)
  have u: "AList.update x (File c) ds = ds @ [(x, File c)]" using nx by (rule update_fresh)
  from "2.prems" have w: "x \<notin> fst ` set es" "wf_entries es" by simp_all
  have "fst ` set es \<inter> fst ` set (AList.update x (File c) ds) = {}"
    using w(1) "2.prems"(2) u by auto
  with "2.IH"(1) [OF m] w(2) have "copytree_node es (AList.update x (File c) ds)
      = (True, AList.update x (File c) ds @ es)" by simp
  with m u show ?case by simp
next
  case (3 x sub es ds)
  from "3.prems" have nx: "x \<notin> fst ` set ds" by auto
  then have m: "map_of ds x = None" by (simp add: map_of_eq_None_iff)
  from "3.prems" have w: "x \<notin> fst ` set es" "wf_entries sub" "wf_entries es" by simp_all
  have s: "copytree_node sub [] = (True, sub)" using "3.IH"(1) [OF m] w(2) by simp
  have u: "AList.update x (Dir sub) ds = ds @ [(x, Dir sub)]" using nx by (rule update_fresh)
  have "fst ` set es \<inter> fst ` set (AList.update x (Dir sub) ds) = {}"
    using w(1) "3.prems"(2) u by auto
  with "3.IH"(2) [OF m refl s [symmetric]] w(3)
  have "copytree_node es (AList.update x (Dir sub) ds)
      = (True, AList.update x (Dir sub) ds @ es)" by simp
  with m s u show ?case by simp
qed

lemma copytree_node_empty: "wf_entries es \<Longrightarrow> copytree_node es [] = (True, es)"
  using copytree_node_fresh [of es "[]"] by simp





lemma put_ok_existing: "lookup p n = Some v \<Longrightarrow> \<exists>n'. put p w n = Some n'"
  by (induction p arbitrary: n v)
     (fastforce split: node.splits option.splits)+

lemma remove_parent:
  "remove (p @ [x]) n = Some n' \<Longrightarrow> lookup p n = Some (Dir es) \<Longrightarrow>
   lookup p n' = Some (Dir (AList.delete x es))"
  by (induction p arbitrary: n n')
     (auto simp: update_conv' split: node.splits option.splits if_splits)




section \<open>Properties of the download\<close>






lemma dialog_frame:
  "files (snd (show_overwrite_warning_dialog a s)) = files s"
  "server_path (snd (show_overwrite_warning_dialog a s)) = server_path s"
  "local_backup_root (snd (show_overwrite_warning_dialog a s)) = local_backup_root s"
  "local_game_paths (snd (show_overwrite_warning_dialog a s)) = local_game_paths s"
  by (simp_all add: show_overwrite_warning_dialog_def)







section \<open>Properties of the upload\<close>

lemma apart_above: "apart p q \<Longrightarrow> apart p (q @ r)"
  using apart_below [of q p r] by (simp add: apart_sym)

lemma os_rename_dir_to_new:
  assumes src: "lookup src fs = Some (Dir es)"
    and dst: "lookup (d @ [x]) fs = None" "is_dir d fs"
    and ap: "apart src (d @ [x])"
  shows "\<exists>fs'. os_rename src (d @ [x]) fs = Inr fs'
           \<and> lookup (d @ [x]) fs' = Some (Dir es) \<and> lookup src fs' = None
           \<and> (\<forall>q. apart src q \<and> apart (d @ [x]) q \<longrightarrow> lookup q fs' = lookup q fs)
           \<and> (\<forall>p y. src = p @ [y] \<longrightarrow> is_dir p fs')"
proof -
  from ap have ne: "src \<noteq> d @ [x]" "\<not> strict_prefix src (d @ [x])" "src \<noteq> []"
    by (auto simp: apart_def strict_prefix_def)
  from put_ok [OF dst(2), of x "Dir es"] obtain fs1 where p: "put (d @ [x]) (Dir es) fs = Some fs1"
    by blast
  have l1: "lookup src fs1 = Some (Dir es)"
    using put_apart [OF p apart_sym [OF ap]] src by simp
  from remove_ok [OF ne(3) l1] obtain fs2 where r: "remove src fs1 = Some fs2" by blast
  have e: "os_rename src (d @ [x]) fs = Inr fs2"
    using src dst(1) ne p r by (simp add: os_rename_def)
  have a: "lookup (d @ [x]) fs2 = Some (Dir es)"
    using remove_apart [OF r ap] put_same [OF p] by simp
  have b: "lookup src fs2 = None" using remove_same [OF r] .
  have c: "lookup q fs2 = lookup q fs" if "apart src q" "apart (d @ [x]) q" for q
    using remove_apart [OF r that(1)] put_apart [OF p that(2)] by simp
  have d: "is_dir p fs2" if "src = p @ [y]" for p y
  proof -
    from lookup_parent_is_dir [OF l1 [unfolded that]] obtain bs where
      "lookup p fs1 = Some (Dir bs)" by (auto simp: is_dir_def split: option.splits node.splits)
    from remove_parent [OF r [unfolded that] this] show ?thesis by (simp add: is_dir_def)
  qed
  from e a b c d show ?thesis by blast
qed

lemma upload_files_moves:
  assumes sv: "lookup (sp @ [gid, ''save_data'']) fs = Some (Dir es)" "es \<noteq> []"
    and bk: "is_dir (sp @ [gid, ''backup'']) fs"
            "lookup (sp @ [gid, ''backup'', ts]) fs = None"
    and lp: "lookup lp fs = Some (Dir ls)"
    and wf: "wf fs"
    and ap: "apart lp (sp @ [gid])"
  shows "\<exists>fs'. upload_files no_upload_faults ts lp sp gid fs = (None, fs')
           \<and> lookup (sp @ [gid, ''backup'', ts]) fs' = Some (Dir es)
           \<and> lookup (sp @ [gid, ''save_data'']) fs' = Some (Dir ls)
           \<and> lookup lp fs' = Some (Dir ls)"
proof -
  let ?sv = "sp @ [gid, ''save_data'']" and ?bd = "(sp @ [gid, ''backup'']) @ [ts]"
  have bd: "?bd = sp @ [gid, ''backup'', ts]" by simp
  have a: "apart ?sv ?bd" by simp
  have al: "apart ?sv lp" "apart ?bd lp"
    using apart_above [OF ap, of "[''save_data'']"] apart_above [OF ap, of "[''backup'', ts]"]
    by (simp_all add: apart_sym)
  from os_rename_dir_to_new [OF sv(1) bk(2) [folded bd] bk(1) a] obtain fs1 where
    r: "os_rename ?sv ?bd fs = Inr fs1"
    and r1: "lookup ?bd fs1 = Some (Dir es)" "lookup ?sv fs1 = None"
    and r2: "\<forall>q. apart ?sv q \<and> apart ?bd q \<longrightarrow> lookup q fs1 = lookup q fs"
    and r3: "\<forall>p y. ?sv = p @ [y] \<longrightarrow> is_dir p fs1" by blast
  have mv: "shutil_move ?sv ?bd fs = (None, fs1)"
    using bk(2) [folded bd] r by (simp add: shutil_move_def is_dir_def Let_def)
  have l1: "lookup lp fs1 = Some (Dir ls)" using r2 al lp by simp
  have "?sv = (sp @ [gid]) @ [''save_data'']" by simp
  with r3 have "is_dir (sp @ [gid]) fs1" by blast
  from put_ok [OF this, of "''save_data''" "Dir []"] obtain fs2 where
    p2: "put ?sv (Dir []) fs1 = Some fs2" by auto
  have mk: "os_mkdir ?sv fs1 = Inr fs2" using r1(2) p2 by (simp add: os_mkdir_def)
  have s2: "lookup ?sv fs2 = Some (Dir [])" using put_same [OF p2] .
  have b2: "lookup ?bd fs2 = Some (Dir es)" using put_apart [OF p2 a] r1(1) by simp
  have l2: "lookup lp fs2 = Some (Dir ls)" using put_apart [OF p2 al(1)] l1 by simp
  have wl: "wf_entries ls" using wf_lookup [OF wf lp] by simp
  from put_ok_existing [OF s2, of "Dir ls"] obtain fs3 where
    p3: "put ?sv (Dir ls) fs2 = Some fs3" by blast
  have cp: "copytree True lp ?sv fs2 = (None, fs3)"
    using l2 s2 copytree_node_empty [OF wl] p3 by (simp add: copytree_def)
  have s3: "lookup ?sv fs3 = Some (Dir ls)" using put_same [OF p3] .
  have b3: "lookup ?bd fs3 = Some (Dir es)" using put_apart [OF p3 a] b2 by simp
  have l3: "lookup lp fs3 = Some (Dir ls)" using put_apart [OF p3 al(1)] l2 by simp
  have "iterdir ?sv fs = Inr (map fst es)" using sv(1) by (simp add: iterdir_def)
  then have "upload_files no_upload_faults ts lp sp gid fs = (None, fs3)"
    using sv(2) mv [unfolded bd] mk cp
    by (simp add: upload_files_def no_upload_faults_def faulty_def copytree_faulty_def Let_def)
  with s3 b3 [unfolded bd] l3 show ?thesis by blast
qed

lemma upload_save_unfold:
  assumes "local_game_paths s gid = Some lps" "lps \<noteq> []"
    and "fst (show_overwrite_warning_dialog a s)"
    and "upload_files flt ts (Path lps) (server_path s) gid (files s) = (r, fs')"
  shows "files (snd (upload_save flt ts a (Some (gid, name)) s)) = fs'"
    and "fst (upload_save flt ts a (Some (gid, name)) s)
         = (case r of None \<Rightarrow> Complete | Some e \<Rightarrow> Failed e)"
proof -
  obtain b s1 where d: "show_overwrite_warning_dialog a s = (b, s1)"
    by (cases "show_overwrite_warning_dialog a s")
  with assms(3) have b by simp
  from d have e: "snd (show_overwrite_warning_dialog a s) = s1" by simp
  have f: "files s1 = files s" "server_path s1 = server_path s"
    using dialog_frame [of a s] e by simp_all
  show "files (snd (upload_save flt ts a (Some (gid, name)) s)) = fs'"
    using d \<open>b\<close> f assms(1,2,4) by (cases r) (simp_all add: upload_save_def)
  show "fst (upload_save flt ts a (Some (gid, name)) s)
         = (case r of None \<Rightarrow> Complete | Some e \<Rightarrow> Failed e)"
    using d \<open>b\<close> f assms(1,2,4) by (cases r) (simp_all add: upload_save_def)
qed

lemma upload_files_move_fails:
  assumes "lookup (sp @ [gid, ''save_data'']) fs = Some (Dir es)" "es \<noteq> []"
    and "u_iterdir flt = None" "u_move flt = Some e"
  shows "upload_files flt ts lp sp gid fs = (Some e, fs)"
  using assms by (simp add: upload_files_def iterdir_def Let_def)

section \<open>Claims\<close>

text \<open>
  C8. For a game that has no entry in the Local Path Map (as for every game of the
  catalog that was never configured on this machine), \<^verbatim>\<open>upload_save\<close> and
  \<^verbatim>\<open>download_save\<close> both end with the warning \<^verbatim>\<open>Local path not set.\<close>, and the whole
  state (the server folder with manifest, \<^verbatim>\<open>save_data\<close> and \<^verbatim>\<open>backup\<close>, the local
  filesystem, the settings) is as it was.
\<close>

theorem unconfigured_blocks_sync:
  assumes "local_game_paths s game_id = None"
  shows "upload_save uf ts1 a1 (Some (game_id, game_name)) s = (Local_path_not_set, s)
       \<and> download_save df ts2 a2 (Some (game_id, game_name)) s = (Local_path_not_set, s)"
  using assms by (simp add: upload_save_def download_save_def)

theorem unconfigured_blocks_sync_witness:
  "load_games_from_json None
     (example_app (example_files celeste_manifest)\<lparr>local_game_paths := Map.empty\<rparr>)
   = Inr [celeste]
   \<and> upload_save no_upload_faults ''2026-01-01_10-00-00'' (True, False)
       (Some (''g1'', ''Celeste''))
       (example_app (example_files celeste_manifest)\<lparr>local_game_paths := Map.empty\<rparr>)
     = (Local_path_not_set,
        example_app (example_files celeste_manifest)\<lparr>local_game_paths := Map.empty\<rparr>)
   \<and> download_save no_download_faults ''2026-01-01_10-00-00'' (True, False)
       (Some (''g1'', ''Celeste''))
       (example_app (example_files celeste_manifest)\<lparr>local_game_paths := Map.empty\<rparr>)
     = (Local_path_not_set,
        example_app (example_files celeste_manifest)\<lparr>local_game_paths := Map.empty\<rparr>)"
  using unconfigured_blocks_sync
    [of "example_app (example_files celeste_manifest)\<lparr>local_game_paths := Map.empty\<rparr>"
        "''g1''" no_upload_faults "''2026-01-01_10-00-00''" "(True, False)" "''Celeste''"
        no_download_faults "''2026-01-01_10-00-00''" "(True, False)"]
  by (simp add: load_games_from_json_def read_games_list_def open_r_def json_load_def
        example_app_def example_files_def games_json_path_def celeste_manifest_def
        celeste_def py_not_def)

text \<open>
  C6, as stated, at a registration in which \<^verbatim>\<open>uuid.uuid4()\<close> returns the identifier of
  a game of the catalog: \<^verbatim>\<open>add_new_game\<close> never looks at the identifiers of the manifest,
  the game is registered, and the catalog read back has two records with the
  identifier \<^verbatim>\<open>g1\<close>.
\<close>

theorem register_with_colliding_id:
  "add_new_game no_add_faults ''g1'' (Some (''Hades'', ''/home/hades''))
     (example_app (example_files celeste_manifest))
   = (Registered,
      example_app (example_files (JObj [(''games'', JArr [celeste, new_game ''g1'' ''Hades''])])))
   \<and> load_games_from_json None (example_app (example_files celeste_manifest)) = Inr [celeste]
   \<and> unique_ids [celeste] \<and> unique_names [celeste]
   \<and> load_games_from_json None
        (example_app (example_files (JObj [(''games'', JArr [celeste, new_game ''g1'' ''Hades''])])))
       = Inr [celeste, new_game ''g1'' ''Hades'']
   \<and> \<not> unique_ids [celeste, new_game ''g1'' ''Hades'']"
  by (simp add: fs_defs app_defs example_defs Let_def unique_ids_def unique_names_def
        entry_name_lower_def field_def)

text \<open>
  C6, amended. When \<^verbatim>\<open>add_new_game\<close> registers a game, starting from a manifest whose
  catalog has pairwise different identifiers and pairwise different lowered names, the
  catalog read back from the manifest is the old one followed by the new record, and
  no two of its records share a name compared without case. No two of its records
  share an identifier if and only if the identifier \<^verbatim>\<open>uuid.uuid4()\<close> returned is not
  the identifier of a record of the old catalog: the code relies on \<^verbatim>\<open>uuid4\<close> for that
  and makes no check of its own.
\<close>

theorem register_uniqueness:
  assumes "add_new_game flt uuid4 (Some (game_name, local_path)) s = (Registered, s')"
    and "load_games_from_json None s = Inr catalog"
    and "unique_ids catalog" and "unique_names catalog"
  shows "load_games_from_json None s' = Inr (catalog @ listed uuid4 game_name)
       \<and> unique_names (catalog @ listed uuid4 game_name)
       \<and> (unique_ids (catalog @ listed uuid4 game_name) \<longleftrightarrow>
            listed uuid4 game_name = []
            \<or> Some (JStr uuid4) \<notin> set (map (field ''id'') catalog))"
proof -
  from registered_catalog [OF assms(1,2)]
  have l: "load_games_from_json None s' = Inr (catalog @ listed uuid4 game_name)"
    and n: "Some (lower game_name) \<notin> set (map entry_name_lower catalog)" by simp_all
  have "unique_names (catalog @ listed uuid4 game_name)"
    using assms(4) n
    by (simp add: unique_names_def listed_def) (simp add: new_game_def entry_name_lower_def field_def)
  moreover have "unique_ids (catalog @ listed uuid4 game_name) \<longleftrightarrow>
            listed uuid4 game_name = []
            \<or> Some (JStr uuid4) \<notin> set (map (field ''id'') catalog)"
    using assms(3)
    by (simp add: unique_ids_def listed_def) (simp add: new_game_def field_def)
  ultimately show ?thesis using l by simp
qed

theorem register_uniqueness_witness:
  "add_new_game no_add_faults ''g2'' (Some (''Hades'', ''/home/hades''))
     (example_app (example_files celeste_manifest))
   = (Registered,
      example_app
        (example_files_with (JObj [(''games'', JArr [celeste, new_game ''g2'' ''Hades''])])
           [(''g2'', Dir [(''save_data'', Dir []), (''backup'', Dir [])])]))
   \<and> load_games_from_json None (example_app (example_files celeste_manifest)) = Inr [celeste]
   \<and> unique_ids [celeste] \<and> unique_names [celeste]
   \<and> load_games_from_json None
        (example_app
          (example_files_with (JObj [(''games'', JArr [celeste, new_game ''g2'' ''Hades''])])
             [(''g2'', Dir [(''save_data'', Dir []), (''backup'', Dir [])])]))
       = Inr ([celeste] @ listed ''g2'' ''Hades'')
   \<and> unique_names ([celeste] @ listed ''g2'' ''Hades'')
   \<and> unique_ids ([celeste] @ listed ''g2'' ''Hades'')"
proof -
  let ?s = "example_app (example_files celeste_manifest)"
  let ?s' = "example_app
        (example_files_with (JObj [(''games'', JArr [celeste, new_game ''g2'' ''Hades''])])
           [(''g2'', Dir [(''save_data'', Dir []), (''backup'', Dir [])])])"
  have a: "add_new_game no_add_faults ''g2'' (Some (''Hades'', ''/home/hades'')) ?s = (Registered, ?s')"
    by (simp add: fs_defs app_defs example_defs Let_def)
  have b: "load_games_from_json None ?s = Inr [celeste]"
    by (simp add: fs_defs app_defs example_defs)
  have c: "unique_ids [celeste]" "unique_names [celeste]"
    by (simp_all add: unique_ids_def unique_names_def)
  have d: "Some (JStr ''g2'') \<notin> set (map (field ''id'') [celeste])"
    by (simp add: field_def celeste_def)
  from register_uniqueness [OF a b c] a b c d show ?thesis
    by blast
qed

text \<open>
  C10. A successful registration changes nothing but the filesystem: the Local Path Map
  is the same, the local path the dialog returned is recorded nowhere. So, when the new
  identifier had no entry in the map, an upload or a download of the new game that
  follows at once ends with \<^verbatim>\<open>Local path not set.\<close> and changes nothing.
\<close>

theorem registration_leaves_local_paths:
  assumes "add_new_game flt uuid4 (Some (game_name, local_path)) s = (Registered, s')"
  shows "local_game_paths s' = local_game_paths s \<and> s' = s\<lparr>files := files s'\<rparr>
       \<and> (local_game_paths s uuid4 = None \<longrightarrow>
            upload_save uf ts1 a1 (Some (uuid4, game_name)) s' = (Local_path_not_set, s')
          \<and> download_save df ts2 a2 (Some (uuid4, game_name)) s' = (Local_path_not_set, s'))"
proof -
  from add_registered_manifest [OF assms] have s': "s' = s\<lparr>files := files s'\<rparr>" by blast
  have "local_game_paths s' = local_game_paths s" by (subst s') simp
  then show ?thesis using s' by (auto simp: upload_save_def download_save_def)
qed

theorem registration_leaves_local_paths_witness:
  "add_new_game no_add_faults ''g2'' (Some (''Hades'', ''/home/hades''))
     (example_app (example_files celeste_manifest))
   = (Registered,
      example_app
        (example_files_with (JObj [(''games'', JArr [celeste, new_game ''g2'' ''Hades''])])
           [(''g2'', Dir [(''save_data'', Dir []), (''backup'', Dir [])])]))
   \<and> local_game_paths (example_app (example_files celeste_manifest)) ''g2'' = None
   \<and> fst (upload_save no_upload_faults ''2026-01-01_10-00-00'' (True, False) (Some (''g2'', ''Hades''))
      (example_app
        (example_files_with (JObj [(''games'', JArr [celeste, new_game ''g2'' ''Hades''])])
           [(''g2'', Dir [(''save_data'', Dir []), (''backup'', Dir [])])])))
     = Local_path_not_set
   \<and> fst (download_save no_download_faults ''2026-01-01_10-00-00'' (True, False) (Some (''g2'', ''Hades''))
      (example_app
        (example_files_with (JObj [(''games'', JArr [celeste, new_game ''g2'' ''Hades''])])
           [(''g2'', Dir [(''save_data'', Dir []), (''backup'', Dir [])])])))
     = Local_path_not_set"
proof -
  let ?s = "example_app (example_files celeste_manifest)"
  let ?s' = "example_app
        (example_files_with (JObj [(''games'', JArr [celeste, new_game ''g2'' ''Hades''])])
           [(''g2'', Dir [(''save_data'', Dir []), (''backup'', Dir [])])])"
  have a: "add_new_game no_add_faults ''g2'' (Some (''Hades'', ''/home/hades'')) ?s = (Registered, ?s')"
    by (simp add: fs_defs app_defs example_defs Let_def)
  have b: "local_game_paths ?s ''g2'' = None" by (simp add: example_app_def)
  from registration_leaves_local_paths [OF a, of no_upload_faults "''2026-01-01_10-00-00''" "(True, False)"
      no_download_faults "''2026-01-01_10-00-00''" "(True, False)"] a b
  show ?thesis by simp
qed

text \<open>
  C1. Saving the manifest writes the whole document to \<^verbatim>\<open>games.json.tmp\<close>, in the
  directory of \<^verbatim>\<open>games.json\<close>, and renames that file over \<^verbatim>\<open>games.json\<close>. When the save
  succeeds, \<^verbatim>\<open>games.json\<close> holds the document, the temporary file is gone, and loading
  returns the saved catalog (a list of game records). When the temporary file is
  written and the rename fails, the temporary file holds the document and
  \<^verbatim>\<open>games.json\<close> is as before; and however the save fails, \<^verbatim>\<open>games.json\<close> is as before.
\<close>

theorem manifest_save_atomic:
  "butlast (games_json_temp_path s) = butlast (games_json_path s)
   \<and> (write_games_json flt (games_json_temp_path s) (games_json_path s) server_data (files s)
        = (None, fs') \<longrightarrow>
        (case write_file (games_json_temp_path s) (Doc server_data) (files s) of
           Inl _ \<Rightarrow> False
         | Inr fs1 \<Rightarrow> os_rename (games_json_temp_path s) (games_json_path s) fs1 = Inr fs')
      \<and> lookup (games_json_path s) fs' = Some (File (Doc server_data))
      \<and> lookup (games_json_temp_path s) fs' = None
      \<and> (field ''games'' server_data = Some (JArr catalog) \<and> list_all game_record catalog \<longrightarrow>
           load_games_from_json None (s\<lparr>files := fs'\<rparr>) = Inr catalog))
   \<and> (a_write_temp flt = None \<and> a_rename flt = Some e
        \<and> write_file (games_json_temp_path s) (Doc server_data) (files s) = Inr fs1 \<longrightarrow>
        write_games_json flt (games_json_temp_path s) (games_json_path s) server_data (files s)
          = (Some e, fs1)
      \<and> lookup (games_json_temp_path s) fs1 = Some (File (Doc server_data))
      \<and> lookup (games_json_path s) fs1 = lookup (games_json_path s) (files s))
   \<and> (write_games_json flt (games_json_temp_path s) (games_json_path s) server_data (files s)
        = (Some e', fs'') \<longrightarrow>
        lookup (games_json_path s) fs'' = lookup (games_json_path s) (files s))"
proof -
  let ?tmp = "games_json_temp_path s" and ?jp = "games_json_path s"
  have ap: "apart ?tmp ?jp" by (simp add: games_json_temp_path_def games_json_path_def)
  have 1: "butlast ?tmp = butlast ?jp"
    by (simp add: games_json_temp_path_def games_json_path_def)
  have 2: "(case write_file ?tmp (Doc server_data) (files s) of
           Inl _ \<Rightarrow> False
         | Inr fs1 \<Rightarrow> os_rename ?tmp ?jp fs1 = Inr fs')
      \<and> lookup ?jp fs' = Some (File (Doc server_data))
      \<and> lookup ?tmp fs' = None
      \<and> (field ''games'' server_data = Some (JArr catalog) \<and> list_all game_record catalog \<longrightarrow>
           load_games_from_json None (s\<lparr>files := fs'\<rparr>) = Inr catalog)"
    if ok: "write_games_json flt ?tmp ?jp server_data (files s) = (None, fs')"
  proof -
    from ok have a: "(case write_file ?tmp (Doc server_data) (files s) of
           Inl _ \<Rightarrow> False
         | Inr fs1 \<Rightarrow> os_rename ?tmp ?jp fs1 = Inr fs')"
      by (auto simp: write_games_json_def write_file_faulty_def faulty_def
               split: option.splits sum.splits prod.splits)
    from write_games_json_ok [of flt "server_path s" server_data "files s" fs'] ok
    have b: "lookup ?jp fs' = Some (File (Doc server_data))" "lookup ?tmp fs' = None"
      by (simp_all add: games_json_temp_path_def games_json_path_def)
    have c: "load_games_from_json None (s\<lparr>files := fs'\<rparr>) = Inr catalog"
      if "field ''games'' server_data = Some (JArr catalog)" "list_all game_record catalog"
    proof -
      from that(1) obtain kv where "server_data = JObj kv" "map_of kv ''games'' = Some (JArr catalog)"
        by (auto simp: field_def split: json.splits)
      with b(1) load_of_doc [of "s\<lparr>files := fs'\<rparr>" kv catalog catalog]
        list_items_game_records [OF that(2)]
      show ?thesis by (simp add: games_json_path_def)
    qed
    from a b c show ?thesis by blast
  qed
  have 3: "write_games_json flt ?tmp ?jp server_data (files s) = (Some e, fs1)
      \<and> lookup ?tmp fs1 = Some (File (Doc server_data))
      \<and> lookup ?jp fs1 = lookup ?jp (files s)"
    if "a_write_temp flt = None" "a_rename flt = Some e"
       "write_file ?tmp (Doc server_data) (files s) = Inr fs1"
    using that put_same [OF write_file_Inr [OF that(3)]]
      put_apart [OF write_file_Inr [OF that(3)] ap]
    by (simp add: write_games_json_def write_file_faulty_def faulty_def)
  have 4: "lookup ?jp fs'' = lookup ?jp (files s)"
    if "write_games_json flt ?tmp ?jp server_data (files s) = (Some e', fs'')"
    using write_games_json_failed [OF that] put_apart [of ?tmp _ "files s" fs'' ?jp] ap
    by auto
  from 1 2 3 4 show ?thesis by blast
qed

theorem manifest_save_atomic_witness:
  "write_games_json no_add_faults
     (games_json_temp_path (example_app (example_files celeste_manifest)))
     (games_json_path (example_app (example_files celeste_manifest)))
     (JObj [(''games'', JArr [celeste, new_game ''g2'' ''Hades''])])
     (files (example_app (example_files celeste_manifest)))
   = (None, example_files (JObj [(''games'', JArr [celeste, new_game ''g2'' ''Hades''])]))
   \<and> load_games_from_json None
       (example_app (example_files celeste_manifest)
          \<lparr>files := example_files (JObj [(''games'', JArr [celeste, new_game ''g2'' ''Hades''])])\<rparr>)
     = Inr [celeste, new_game ''g2'' ''Hades'']
   \<and> write_games_json (no_add_faults\<lparr>a_rename := Some PermissionError\<rparr>)
     (games_json_temp_path (example_app (example_files celeste_manifest)))
     (games_json_path (example_app (example_files celeste_manifest)))
     (JObj [(''games'', JArr [celeste, new_game ''g2'' ''Hades''])])
     (files (example_app (example_files celeste_manifest)))
   = (Some PermissionError,
      example_files_with celeste_manifest
        [(''games.json.tmp'',
          File (Doc (JObj [(''games'', JArr [celeste, new_game ''g2'' ''Hades''])])))])
   \<and> lookup (games_json_path (example_app (example_files celeste_manifest)))
       (example_files_with celeste_manifest
        [(''games.json.tmp'',
          File (Doc (JObj [(''games'', JArr [celeste, new_game ''g2'' ''Hades''])])))])
     = Some (File (Doc celeste_manifest))"
proof -
  let ?s = "example_app (example_files celeste_manifest)"
  let ?d = "JObj [(''games'', JArr [celeste, new_game ''g2'' ''Hades''])]"
  let ?f1 = "example_files_with celeste_manifest [(''games.json.tmp'', File (Doc ?d))]"
  have a: "write_games_json no_add_faults (games_json_temp_path ?s) (games_json_path ?s) ?d (files ?s)
           = (None, example_files ?d)"
    by (simp add: fs_defs app_defs example_defs)
  have g: "field ''games'' ?d = Some (JArr [celeste, new_game ''g2'' ''Hades''])"
          "list_all game_record [celeste, new_game ''g2'' ''Hades'']"
    by (simp_all add: field_def game_record_def celeste_def new_game_def)
  have w: "write_file (games_json_temp_path ?s) (Doc ?d) (files ?s) = Inr ?f1"
    by (simp add: fs_defs app_defs example_defs)
  have f: "a_write_temp (no_add_faults\<lparr>a_rename := Some PermissionError\<rparr>) = None"
          "a_rename (no_add_faults\<lparr>a_rename := Some PermissionError\<rparr>) = Some PermissionError"
    by (simp_all add: no_add_faults_def)
  have o: "lookup (games_json_path ?s) (files ?s) = Some (File (Doc celeste_manifest))"
    by (simp add: app_defs example_defs)
  have 1: "load_games_from_json None (?s\<lparr>files := example_files ?d\<rparr>)
           = Inr [celeste, new_game ''g2'' ''Hades'']"
    using manifest_save_atomic [where s = ?s and flt = no_add_faults and server_data = ?d
        and fs' = "example_files ?d" and catalog = "[celeste, new_game ''g2'' ''Hades'']"] a g
    by blast
  have 2: "write_games_json (no_add_faults\<lparr>a_rename := Some PermissionError\<rparr>)
             (games_json_temp_path ?s) (games_json_path ?s) ?d (files ?s) = (Some PermissionError, ?f1)
         \<and> lookup (games_json_path ?s) ?f1 = lookup (games_json_path ?s) (files ?s)"
    using manifest_save_atomic [where s = ?s and flt = "no_add_faults\<lparr>a_rename := Some PermissionError\<rparr>"
        and server_data = ?d and e = PermissionError and ?fs1.0 = ?f1] f w
    by blast
  from a 1 2 o show ?thesis by simp
qed

text \<open>
  C9, as stated, at three manifests. Bytes that do not decode as text are not JSON,
  and the load ends with the message that the file could not be read
  (\<^verbatim>\<open>UnicodeDecodeError\<close> is not a \<^verbatim>\<open>JSONDecodeError\<close>), not with the message that the
  file is corrupted. A number of 5001 digits is a JSON document whose root is not an
  object, and the load ends with the message that the file could not be read
  (\<^verbatim>\<open>ValueError\<close>), not with the message that the format is invalid. The text
  \<^verbatim>\<open>NaN\<close> is not JSON, but \<^verbatim>\<open>json.load\<close> reads it as a float, and the load ends with
  the message that the format is invalid.
\<close>

theorem load_of_undecodable_or_refused_manifest:
  "load_games_from_json None
     (example_app (Dir [(''srv'', Dir [(''games.json'', File Undecodable)])]))
   = Inl (Games_unreadable UnicodeDecodeError)
   \<and> Games_unreadable UnicodeDecodeError \<noteq> Games_corrupted
   \<and> load_games_from_json None
       (example_app (Dir [(''srv'', Dir [(''games.json'', File (Beyond_limits Long_number))])]))
     = Inl (Games_unreadable ValueError)
   \<and> Games_unreadable ValueError \<noteq> Games_invalid_format
   \<and> load_games_from_json None
       (example_app (Dir [(''srv'', Dir [(''games.json'', File (Doc (JFloat NaN)))])]))
     = Inl Games_invalid_format
   \<and> Games_invalid_format \<noteq> Games_corrupted"
  by (simp add: fs_defs app_defs example_defs)

text \<open>
  C9, amended. Loading tells the failures apart by what \<^verbatim>\<open>json.load\<close> does: a
  manifest on which \<^verbatim>\<open>json.load\<close> raises \<^verbatim>\<open>JSONDecodeError\<close> gives the message that the
  file is corrupted; a manifest that \<^verbatim>\<open>json.load\<close> parses to a value whose root is not
  an object, or whose \<^verbatim>\<open>games\<close> is missing or not a list, gives the message that the
  format is invalid; a manifest missing from the server folder gives the message that
  the file could not be read, with \<^verbatim>\<open>FileNotFoundError\<close>. The three results differ.
  A manifest that does not decode as text, and one with a number too long for the
  parser, give the message that the file could not be read.
\<close>

theorem load_distinguishes_failures:
  "(lookup (games_json_path s) (files s) = Some (File (Raw t)) \<longrightarrow>
      load_games_from_json None s = Inl Games_corrupted)
   \<and> (lookup (games_json_path s) (files s) = Some (File (Doc j))
        \<and> (\<not> is_object j \<or> \<not> is_list (field ''games'' j)) \<longrightarrow>
      load_games_from_json None s = Inl Games_invalid_format)
   \<and> (lookup (games_json_path s) (files s) = None \<and> is_dir (server_path s) (files s) \<longrightarrow>
      load_games_from_json None s = Inl (Games_unreadable FileNotFoundError))
   \<and> Games_corrupted \<noteq> Games_invalid_format
   \<and> Games_corrupted \<noteq> Games_unreadable FileNotFoundError
   \<and> Games_invalid_format \<noteq> Games_unreadable FileNotFoundError
   \<and> (lookup (games_json_path s) (files s) = Some (File Undecodable) \<longrightarrow>
      load_games_from_json None s = Inl (Games_unreadable UnicodeDecodeError))
   \<and> (lookup (games_json_path s) (files s) = Some (File (Beyond_limits Long_number)) \<longrightarrow>
      load_games_from_json None s = Inl (Games_unreadable ValueError))"
proof -
  have 1: "load_games_from_json None s = Inl Games_corrupted"
    if "lookup (games_json_path s) (files s) = Some (File (Raw t))"
    using that by (simp add: load_games_from_json_def read_games_list_def open_r_def json_load_def)
  have 2: "load_games_from_json None s = Inl Games_invalid_format"
    if "lookup (games_json_path s) (files s) = Some (File (Doc j))"
       "\<not> is_object j \<or> \<not> is_list (field ''games'' j)"
  proof (cases j)
    case (JObj kv)
    with that(2) have "\<not> is_list (map_of kv ''games'')" by (simp add: field_def)
    then have "\<forall>gl. map_of kv ''games'' \<noteq> Some (JArr gl)" by auto
    with that(1) JObj show ?thesis
      by (auto simp: load_games_from_json_def read_games_list_def open_r_def json_load_def
               split: option.splits json.splits)
  qed (use that(1) in \<open>simp_all add: load_games_from_json_def read_games_list_def open_r_def json_load_def\<close>)
  have m: "missing_errno (p @ [x]) n = FileNotFoundError"
    if "lookup (p @ [x]) n = None" "is_dir p n" for p x n
    using that
    by (induction p arbitrary: n) (auto simp: is_dir_def split: node.splits option.splits)
  have 3: "load_games_from_json None s = Inl (Games_unreadable FileNotFoundError)"
    if "lookup (games_json_path s) (files s) = None" "is_dir (server_path s) (files s)"
    using that m [of "server_path s" "''games.json''" "files s"]
    by (simp add: load_games_from_json_def read_games_list_def open_r_def games_json_path_def)
  have 4: "load_games_from_json None s = Inl (Games_unreadable UnicodeDecodeError)"
    if "lookup (games_json_path s) (files s) = Some (File Undecodable)"
    using that by (simp add: load_games_from_json_def read_games_list_def open_r_def json_load_def)
  have 5: "load_games_from_json None s = Inl (Games_unreadable ValueError)"
    if "lookup (games_json_path s) (files s) = Some (File (Beyond_limits Long_number))"
    using that by (simp add: load_games_from_json_def read_games_list_def open_r_def json_load_def)
  from 1 2 3 4 5 show ?thesis by blast
qed

theorem load_distinguishes_failures_witness:
  "load_games_from_json None
     (example_app (Dir [(''srv'', Dir [(''games.json'', File (Raw ''this is not json''))])]))
   = Inl Games_corrupted
   \<and> load_games_from_json None
       (example_app (example_files (JObj [(''games'', JStr ''not-a-list'')])))
     = Inl Games_invalid_format
   \<and> load_games_from_json None (example_app (example_files (JArr [celeste])))
     = Inl Games_invalid_format
   \<and> load_games_from_json None (example_app (Dir [(''srv'', Dir [])]))
     = Inl (Games_unreadable FileNotFoundError)
   \<and> load_games_from_json None
       (example_app (Dir [(''srv'', Dir [(''games.json'', File Undecodable)])]))
     = Inl (Games_unreadable UnicodeDecodeError)
   \<and> load_games_from_json None
       (example_app (Dir [(''srv'', Dir [(''games.json'', File (Beyond_limits Long_number))])]))
     = Inl (Games_unreadable ValueError)"
proof -
  let ?s1 = "example_app (Dir [(''srv'', Dir [(''games.json'', File (Raw ''this is not json''))])])"
  let ?s2 = "example_app (example_files (JObj [(''games'', JStr ''not-a-list'')]))"
  let ?s3 = "example_app (example_files (JArr [celeste]))"
  let ?s4 = "example_app (Dir [(''srv'', Dir [])])"
  let ?s5 = "example_app (Dir [(''srv'', Dir [(''games.json'', File Undecodable)])])"
  let ?s6 = "example_app (Dir [(''srv'', Dir [(''games.json'', File (Beyond_limits Long_number))])])"
  have 1: "lookup (games_json_path ?s1) (files ?s1) = Some (File (Raw ''this is not json''))"
    by (simp add: app_defs example_defs)
  have 2: "lookup (games_json_path ?s2) (files ?s2) = Some (File (Doc (JObj [(''games'', JStr ''not-a-list'')])))"
          "\<not> is_list (field ''games'' (JObj [(''games'', JStr ''not-a-list'')]))"
    by (simp_all add: app_defs example_defs field_def)
  have 3: "lookup (games_json_path ?s3) (files ?s3) = Some (File (Doc (JArr [celeste])))"
          "\<not> is_object (JArr [celeste])"
    by (simp_all add: app_defs example_defs)
  have 4: "lookup (games_json_path ?s4) (files ?s4) = None" "is_dir (server_path ?s4) (files ?s4)"
    by (simp_all add: app_defs example_defs is_dir_def)
  have 5: "lookup (games_json_path ?s5) (files ?s5) = Some (File Undecodable)"
    by (simp add: app_defs example_defs)
  have 6: "lookup (games_json_path ?s6) (files ?s6) = Some (File (Beyond_limits Long_number))"
    by (simp add: app_defs example_defs)
  have a: "load_games_from_json None ?s1 = Inl Games_corrupted"
    using load_distinguishes_failures [of ?s1 "''this is not json''" JNull] 1 by blast
  have b: "load_games_from_json None ?s2 = Inl Games_invalid_format"
    using load_distinguishes_failures [of ?s2 "[]" "JObj [(''games'', JStr ''not-a-list'')]"] 2
    by blast
  have c: "load_games_from_json None ?s3 = Inl Games_invalid_format"
    using load_distinguishes_failures [of ?s3 "[]" "JArr [celeste]"] 3 by blast
  have d: "load_games_from_json None ?s4 = Inl (Games_unreadable FileNotFoundError)"
    using load_distinguishes_failures [of ?s4 "[]" JNull] 4 by blast
  have e: "load_games_from_json None ?s5 = Inl (Games_unreadable UnicodeDecodeError)"
    using load_distinguishes_failures [of ?s5 "[]" JNull] 5 by blast
  have f: "load_games_from_json None ?s6 = Inl (Games_unreadable ValueError)"
    using load_distinguishes_failures [of ?s6 "[]" JNull] 6 by blast
  from a b c d e f show ?thesis by (intro conjI)
qed

text \<open>
  C7, at a manifest whose first entry has an \<^verbatim>\<open>id\<close> and no \<^verbatim>\<open>name\<close>. Loading skips
  the entry and lists the other game (see also \<open>list_items_filter\<close>). Registering a
  game named Hades does not skip it: \<^verbatim>\<open>g['name']\<close> raises \<^verbatim>\<open>KeyError\<close>, the registration
  ends with the message that \<^verbatim>\<open>games.json\<close> could not be updated, and the directories and
  the manifest are as before.
\<close>

theorem registrar_raises_on_entry_without_name:
  "load_games_from_json None (example_app (example_files nameless_manifest)) = Inr [celeste]
   \<and> add_new_game no_add_faults ''g2'' (Some (''Hades'', ''/home/hades''))
       (example_app (example_files nameless_manifest))
     = (Returned [Server_error_update KeyError], example_app (example_files nameless_manifest))"
  by (simp add: fs_defs app_defs example_defs Let_def)

text \<open>
  C3, as stated, at two uploads of the same game within one second, so that both
  have the same timestamp. At the second upload the folder \<^verbatim>\<open>backup/<timestamp>\<close> is
  there already, \<^verbatim>\<open>shutil.move\<close> moves \<^verbatim>\<open>save_data\<close> into it, and the folder then holds the
  backup of the first upload together with a folder \<^verbatim>\<open>save_data\<close>: it is not the former
  content of the server's \<^verbatim>\<open>save_data\<close>.
\<close>

theorem second_upload_in_the_same_second:
  "fst (upload_save no_upload_faults ''2026-01-01_10-00-00'' (True, False)
          (Some (''g1'', ''Celeste'')) (example_app (example_files celeste_manifest)))
   = Complete
   \<and> lookup [''srv'', ''g1'', ''save_data''] (files uploaded_once)
     = Some (Dir [(''a.txt'', File (Raw ''y''))])
   \<and> lookup [''srv'', ''g1'', ''backup'', ''2026-01-01_10-00-00''] (files uploaded_once)
     = Some (Dir [(''a.txt'', File (Raw ''x''))])
   \<and> fst (upload_save no_upload_faults ''2026-01-01_10-00-00'' (True, False)
          (Some (''g1'', ''Celeste'')) uploaded_once)
     = Complete
   \<and> lookup [''srv'', ''g1'', ''backup'', ''2026-01-01_10-00-00'']
        (files (snd (upload_save no_upload_faults ''2026-01-01_10-00-00'' (True, False)
                       (Some (''g1'', ''Celeste'')) uploaded_once)))
     = Some (Dir [(''a.txt'', File (Raw ''x'')),
                  (''save_data'', Dir [(''a.txt'', File (Raw ''y''))])])
   \<and> lookup [''srv'', ''g1'', ''backup'', ''2026-01-01_10-00-00'']
        (files (snd (upload_save no_upload_faults ''2026-01-01_10-00-00'' (True, False)
                       (Some (''g1'', ''Celeste'')) uploaded_once)))
     \<noteq> lookup [''srv'', ''g1'', ''save_data''] (files uploaded_once)"
  by (simp add: uploaded_once_def fs_defs app_defs example_defs Let_def)

text \<open>
  C3, amended. An upload of a configured game whose server \<^verbatim>\<open>save_data\<close> directory is
  not empty, with the server's \<^verbatim>\<open>backup\<close> directory in place, no entry
  \<^verbatim>\<open>backup/<timestamp>\<close> yet, the local save directory outside of the game's server
  folder, directories without two entries of the same name, and no I/O failure. The
  upload completes; afterwards \<^verbatim>\<open>backup/<timestamp>\<close> is exactly the former \<^verbatim>\<open>save_data\<close>
  directory, \<^verbatim>\<open>save_data\<close> is exactly the local save directory, and the local save
  directory is as before. The move comes first: when it fails, the upload fails with
  its error and nothing has been copied or changed.
\<close>

theorem upload_backs_up_then_copies:
  assumes cfg: "local_game_paths s game_id = Some local_path_str" "local_path_str \<noteq> []"
    and go: "fst (show_overwrite_warning_dialog answer s)"
    and sv: "lookup (server_path s @ [game_id, ''save_data'']) (files s) = Some (Dir es)"
            "es \<noteq> []"
    and bk: "is_dir (server_path s @ [game_id, ''backup'']) (files s)"
            "lookup (server_path s @ [game_id, ''backup'', timestamp]) (files s) = None"
    and lp: "lookup (Path local_path_str) (files s) = Some (Dir ls)"
    and wf: "wf (files s)"
    and ap: "apart (Path local_path_str) (server_path s @ [game_id])"
  shows
    "fst (upload_save no_upload_faults timestamp answer (Some (game_id, game_name)) s) = Complete
     \<and> lookup (server_path s @ [game_id, ''backup'', timestamp])
          (files (snd (upload_save no_upload_faults timestamp answer
                         (Some (game_id, game_name)) s)))
       = Some (Dir es)
     \<and> lookup (server_path s @ [game_id, ''save_data''])
          (files (snd (upload_save no_upload_faults timestamp answer
                         (Some (game_id, game_name)) s)))
       = Some (Dir ls)
     \<and> lookup (Path local_path_str)
          (files (snd (upload_save no_upload_faults timestamp answer
                         (Some (game_id, game_name)) s)))
       = Some (Dir ls)
     \<and> (u_iterdir flt = None \<and> u_move flt = Some e \<longrightarrow>
          fst (upload_save flt timestamp answer (Some (game_id, game_name)) s) = Failed e
          \<and> files (snd (upload_save flt timestamp answer (Some (game_id, game_name)) s))
            = files s)"
proof -
  from upload_files_moves [OF sv bk lp wf ap] obtain fs' where
    u: "upload_files no_upload_faults timestamp (Path local_path_str) (server_path s) game_id
          (files s) = (None, fs')"
    and l: "lookup (server_path s @ [game_id, ''backup'', timestamp]) fs' = Some (Dir es)"
           "lookup (server_path s @ [game_id, ''save_data'']) fs' = Some (Dir ls)"
           "lookup (Path local_path_str) fs' = Some (Dir ls)"
    by (elim exE conjE)
  note f = upload_save_unfold [OF cfg go u, of game_name]
  have 1: "fst (upload_save no_upload_faults timestamp answer (Some (game_id, game_name)) s)
           = Complete" using f(2) by simp
  have 5: "fst (upload_save flt timestamp answer (Some (game_id, game_name)) s) = Failed e
          \<and> files (snd (upload_save flt timestamp answer (Some (game_id, game_name)) s))
            = files s"
    if h: "u_iterdir flt = None \<and> u_move flt = Some e"
  proof -
    note m = upload_files_move_fails [OF sv h [THEN conjunct1] h [THEN conjunct2],
        of timestamp "Path local_path_str"]
    note g = upload_save_unfold [OF cfg go m, of game_name]
    from g(2) g(1) show ?thesis by simp
  qed
  show ?thesis
  proof (intro conjI impI)
    show "fst (upload_save no_upload_faults timestamp answer (Some (game_id, game_name)) s)
          = Complete" by (rule 1)
    show "lookup (server_path s @ [game_id, ''backup'', timestamp])
          (files (snd (upload_save no_upload_faults timestamp answer
                         (Some (game_id, game_name)) s))) = Some (Dir es)"
      unfolding f(1) by (rule l(1))
    show "lookup (server_path s @ [game_id, ''save_data''])
          (files (snd (upload_save no_upload_faults timestamp answer
                         (Some (game_id, game_name)) s))) = Some (Dir ls)"
      unfolding f(1) by (rule l(2))
    show "lookup (Path local_path_str)
          (files (snd (upload_save no_upload_faults timestamp answer
                         (Some (game_id, game_name)) s))) = Some (Dir ls)"
      unfolding f(1) by (rule l(3))
  next
    assume h: "u_iterdir flt = None \<and> u_move flt = Some e"
    show "fst (upload_save flt timestamp answer (Some (game_id, game_name)) s) = Failed e"
      using 5 [OF h] by (rule conjunct1)
    show "files (snd (upload_save flt timestamp answer (Some (game_id, game_name)) s)) = files s"
      using 5 [OF h] by (rule conjunct2)
  qed
qed

theorem upload_backs_up_then_copies_witness:
  "fst (upload_save no_upload_faults ''2026-01-01_10-00-00'' (True, False)
          (Some (''g1'', ''Celeste'')) (example_app (example_files celeste_manifest)))
   = Complete
   \<and> lookup [''srv'', ''g1'', ''backup'', ''2026-01-01_10-00-00'']
        (files (snd (upload_save no_upload_faults ''2026-01-01_10-00-00'' (True, False)
                       (Some (''g1'', ''Celeste''))
                       (example_app (example_files celeste_manifest)))))
     = Some (Dir [(''a.txt'', File (Raw ''x''))])
   \<and> lookup [''srv'', ''g1'', ''save_data'']
        (files (snd (upload_save no_upload_faults ''2026-01-01_10-00-00'' (True, False)
                       (Some (''g1'', ''Celeste''))
                       (example_app (example_files celeste_manifest)))))
     = Some (Dir [(''a.txt'', File (Raw ''y''))])
   \<and> fst (upload_save (no_upload_faults\<lparr>u_move := Some PermissionError\<rparr>)
          ''2026-01-01_10-00-00'' (True, False)
          (Some (''g1'', ''Celeste'')) (example_app (example_files celeste_manifest)))
     = Failed PermissionError
   \<and> files (snd (upload_save (no_upload_faults\<lparr>u_move := Some PermissionError\<rparr>)
          ''2026-01-01_10-00-00'' (True, False)
          (Some (''g1'', ''Celeste'')) (example_app (example_files celeste_manifest))))
     = example_files celeste_manifest"
proof -
  let ?s = "example_app (example_files celeste_manifest)"
  let ?ts = "''2026-01-01_10-00-00''"
  let ?ls = "[(''a.txt'', File (Raw ''y''))]"
  let ?es = "[(''a.txt'', File (Raw ''x''))]"
  let ?flt = "no_upload_faults\<lparr>u_move := Some PermissionError\<rparr>"
  have p: "Path ''/home/celeste'' = [''home'', ''celeste'']" by (simp add: Path_def)
  have sp: "server_path ?s = [''srv'']" by (simp add: example_app_def)
  have f: "files ?s = example_files celeste_manifest" by (simp add: example_app_def)
  have h1: "local_game_paths ?s ''g1'' = Some ''/home/celeste''" by (simp add: example_app_def)
  have h2: "''/home/celeste'' \<noteq> []" by simp
  have h3: "fst (show_overwrite_warning_dialog (True, False) ?s)"
    by (simp add: show_overwrite_warning_dialog_def example_app_def)
  have h4: "lookup (server_path ?s @ [''g1'', ''save_data'']) (files ?s) = Some (Dir ?es)"
    unfolding sp f by (simp add: example_files_def)
  have h5: "?es \<noteq> []" by simp
  have h6: "is_dir (server_path ?s @ [''g1'', ''backup'']) (files ?s)"
    unfolding sp f by (simp add: example_files_def is_dir_def)
  have h7: "lookup (server_path ?s @ [''g1'', ''backup'', ?ts]) (files ?s) = None"
    unfolding sp f by (simp add: example_files_def)
  have h8: "lookup (Path ''/home/celeste'') (files ?s) = Some (Dir ?ls)"
    unfolding p f by (simp add: example_files_def)
  have h9: "wf (files ?s)" unfolding f by (simp add: example_files_def)
  have h10: "apart (Path ''/home/celeste'') (server_path ?s @ [''g1''])"
    unfolding p sp by (simp add: apart_def)
  have g: "u_iterdir ?flt = None \<and> u_move ?flt = Some PermissionError"
    by (simp add: no_upload_faults_def)
  note t = upload_backs_up_then_copies [where flt = ?flt and game_name = "''Celeste''"
      and e = PermissionError, OF h1 h2 h3 h4 h5 h6 h7 h8 h9 h10]
  note t5 = t [THEN conjunct2, THEN conjunct2, THEN conjunct2, THEN conjunct2, THEN mp, OF g]
  show ?thesis
  proof (intro conjI)
    show "fst (upload_save no_upload_faults ?ts (True, False) (Some (''g1'', ''Celeste'')) ?s)
          = Complete" by (rule t [THEN conjunct1])
    show "lookup [''srv'', ''g1'', ''backup'', ?ts]
        (files (snd (upload_save no_upload_faults ?ts (True, False)
                       (Some (''g1'', ''Celeste'')) ?s))) = Some (Dir ?es)"
      using t [THEN conjunct2, THEN conjunct1] unfolding sp by simp
    show "lookup [''srv'', ''g1'', ''save_data'']
        (files (snd (upload_save no_upload_faults ?ts (True, False)
                       (Some (''g1'', ''Celeste'')) ?s))) = Some (Dir ?ls)"
      using t [THEN conjunct2, THEN conjunct2, THEN conjunct1] unfolding sp by simp
    show "fst (upload_save ?flt ?ts (True, False) (Some (''g1'', ''Celeste'')) ?s)
          = Failed PermissionError" by (rule t5 [THEN conjunct1])
    show "files (snd (upload_save ?flt ?ts (True, False) (Some (''g1'', ''Celeste'')) ?s))
          = example_files celeste_manifest"
      using t5 [THEN conjunct2] unfolding f .
  qed
qed



text \<open>
  C5, at a download whose local save directory is empty. The directory
  \<^verbatim>\<open>backups/g1/<timestamp>\<close> is made before the code looks whether there is anything to
  back up, so the download leaves an empty backup folder behind.
\<close>

theorem download_of_empty_local_creates_backup_folder:
  "iterdir [''home'', ''celeste''] empty_local_files = Inr []
   \<and> lookup [''home'', ''backups''] empty_local_files = None
   \<and> fst (download_save no_download_faults ''2026-01-01_10-00-00'' (True, False)
            (Some (''g1'', ''Celeste'')) (example_app empty_local_files)) = Complete
   \<and> lookup [''home'', ''backups'', ''g1'', ''2026-01-01_10-00-00'']
        (files (snd (download_save no_download_faults ''2026-01-01_10-00-00'' (True, False)
                       (Some (''g1'', ''Celeste'')) (example_app empty_local_files))))
     = Some (Dir [])"
  by (simp add: fs_defs app_defs example_defs Let_def)

text \<open>
  C2, as stated, at a registration whose manifest rename fails and whose rollback fails
  too (a share that has become read-only, say): the code shows the rollback error and
  returns, and the directories \<^verbatim>\<open>save_data\<close> and \<^verbatim>\<open>backup\<close> made for the attempt are
  still there.
\<close>

theorem rollback_failure_leaves_directories:
  "fst (add_new_game
          (no_add_faults\<lparr>a_rename := Some PermissionError, a_rmtree_rollback := Some PermissionError\<rparr>)
          ''g2'' (Some (''Hades'', ''/home/hades'')) (example_app (example_files celeste_manifest)))
   = Returned [Server_error_update PermissionError, Rollback_error PermissionError]
   \<and> is_dir [''srv'', ''g2'', ''save_data'']
        (files (snd (add_new_game
          (no_add_faults\<lparr>a_rename := Some PermissionError, a_rmtree_rollback := Some PermissionError\<rparr>)
          ''g2'' (Some (''Hades'', ''/home/hades'')) (example_app (example_files celeste_manifest)))))
   \<and> is_dir [''srv'', ''g2'', ''backup'']
        (files (snd (add_new_game
          (no_add_faults\<lparr>a_rename := Some PermissionError, a_rmtree_rollback := Some PermissionError\<rparr>)
          ''g2'' (Some (''Hades'', ''/home/hades'')) (example_app (example_files celeste_manifest)))))"
  by (simp add: fs_defs app_defs example_defs Let_def)

text \<open>
  C2, amended. Registration is all-or-nothing unless the rollback itself fails. For
  every call of \<^verbatim>\<open>add_new_game\<close> with a fresh identifier that fails after the two
  server directories were made (a duplicate name, or a failure to read or write the
  manifest), and in which no \<^verbatim>\<open>rmtree\<close> fails, the directory of the game is gone
  afterwards and \<^verbatim>\<open>games.json\<close> is as before, so the catalog is the same and does not
  hold the attempted record. In particular, when a name has been registered, registering
  a name equal to it up to case (in a call whose directory creation, manifest read and
  \<^verbatim>\<open>rmtree\<close> do not fail) ends with the duplicate warning, removes the directory it made,
  and leaves the catalog with exactly one record of that name.
\<close>

theorem registration_rolled_back:
  "(add_new_game flt uuid4 (Some (game_name, local_path)) s = (Returned ms, s')
      \<and> \<not> list_ex is_mkdir_error ms
      \<and> a_rmtree_duplicate flt = None \<and> a_rmtree_rollback flt = None
      \<and> lookup (server_path s @ [uuid4]) (files s) = None \<longrightarrow>
        lookup (server_path s @ [uuid4]) (files s') = None
      \<and> lookup (games_json_path s) (files s') = lookup (games_json_path s) (files s)
      \<and> (load_games_from_json None s = Inr catalog \<longrightarrow>
           load_games_from_json None s' = Inr catalog))
   \<and> (add_new_game flt1 id1 (Some (name1, path1)) t = (Registered, t1)
      \<and> load_games_from_json None t = Inr cat \<and> id1 \<noteq> [] \<and> name1 \<noteq> []
      \<and> a_mkdir_save_data flt2 = None \<and> a_mkdir_backup flt2 = None \<and> a_read flt2 = None
      \<and> a_rmtree_duplicate flt2 = None
      \<and> lower name2 = lower name1
      \<and> lookup (server_path t1 @ [id2]) (files t1) = None \<longrightarrow>
        fst (add_new_game flt2 id2 (Some (name2, path2)) t1) = Returned [Duplicate_game]
      \<and> lookup (server_path t1 @ [id2])
            (files (snd (add_new_game flt2 id2 (Some (name2, path2)) t1))) = None
      \<and> load_games_from_json None (snd (add_new_game flt2 id2 (Some (name2, path2)) t1))
          = Inr (cat @ [new_game id1 name1])
      \<and> length (filter (\<lambda>g. entry_name_lower g = Some (lower name1))
                  (cat @ [new_game id1 name1])) = 1)"
proof -
  have A: "lookup (server_path s @ [uuid4]) (files s') = None
      \<and> lookup (games_json_path s) (files s') = lookup (games_json_path s) (files s)
      \<and> (load_games_from_json None s = Inr catalog \<longrightarrow>
           load_games_from_json None s' = Inr catalog)"
    if "add_new_game flt uuid4 (Some (game_name, local_path)) s = (Returned ms, s')"
       "\<not> list_ex is_mkdir_error ms"
       "a_rmtree_duplicate flt = None" "a_rmtree_rollback flt = None"
       "lookup (server_path s @ [uuid4]) (files s) = None"
  proof -
    from failed_registration_rolled_back [OF that]
    have 1: "lookup (server_path s @ [uuid4]) (files s') = None"
      and 2: "lookup (games_json_path s) (files s') = lookup (games_json_path s) (files s)"
      and 3: "s' = s\<lparr>files := files s'\<rparr>" by simp_all
    have "games_json_path s' = games_json_path s" by (subst 3) (simp add: games_json_path_def)
    with 2 load_Inr_cong [of s' s catalog] 1 show ?thesis by simp
  qed
  have B: "fst (add_new_game flt2 id2 (Some (name2, path2)) t1) = Returned [Duplicate_game]
      \<and> lookup (server_path t1 @ [id2])
            (files (snd (add_new_game flt2 id2 (Some (name2, path2)) t1))) = None
      \<and> load_games_from_json None (snd (add_new_game flt2 id2 (Some (name2, path2)) t1))
          = Inr (cat @ [new_game id1 name1])
      \<and> length (filter (\<lambda>g. entry_name_lower g = Some (lower name1))
                  (cat @ [new_game id1 name1])) = 1"
    if r: "add_new_game flt1 id1 (Some (name1, path1)) t = (Registered, t1)"
      and c: "load_games_from_json None t = Inr cat" and ne: "id1 \<noteq> []" "name1 \<noteq> []"
      and nf: "a_mkdir_save_data flt2 = None" "a_mkdir_backup flt2 = None" "a_read flt2 = None"
              "a_rmtree_duplicate flt2 = None"
      and same: "lower name2 = lower name1"
      and fresh: "lookup (server_path t1 @ [id2]) (files t1) = None"
  proof -
    have li: "listed id1 name1 = [new_game id1 name1]"
      using ne by (simp add: listed_def)
    from registered_catalog [OF r c, unfolded li]
    have l1: "load_games_from_json None t1 = Inr (cat @ [new_game id1 name1])"
      and n: "Some (lower name1) \<notin> set (map entry_name_lower cat)"
      by blast+
    from second_registration_duplicate [OF r nf same fresh, of path2] obtain t2 where
      a: "add_new_game flt2 id2 (Some (name2, path2)) t1 = (Returned [Duplicate_game], t2)"
      and j: "lookup (games_json_path t1) (files t2) = lookup (games_json_path t1) (files t1)"
      and g: "lookup (server_path t1 @ [id2]) (files t2) = None"
      and t2: "t2 = t1\<lparr>files := files t2\<rparr>" by blast
    have "games_json_path t2 = games_json_path t1" by (subst t2) (simp add: games_json_path_def)
    with j load_Inr_cong [of t2 t1, OF _ l1]
    have l2: "load_games_from_json None t2 = Inr (cat @ [new_game id1 name1])" by simp
    have "filter (\<lambda>g. entry_name_lower g = Some (lower name1)) cat = []"
    proof (rule ccontr)
      assume "filter (\<lambda>g. entry_name_lower g = Some (lower name1)) cat \<noteq> []"
      then obtain g where "g \<in> set cat" "entry_name_lower g = Some (lower name1)"
        by (auto simp: filter_empty_conv)
      then have "Some (lower name1) \<in> set (map entry_name_lower cat)" by force
      with n show False by simp
    qed
    then have "length (filter (\<lambda>g. entry_name_lower g = Some (lower name1))
                  (cat @ [new_game id1 name1])) = 1"
      by (simp add: entry_name_lower_def field_def new_game_def)
    with a g l2 show ?thesis by simp
  qed
  from A B show ?thesis by blast
qed

theorem registration_rolled_back_witness:
  "add_new_game (no_add_faults\<lparr>a_rename := Some PermissionError\<rparr>) ''g2''
     (Some (''Hades'', ''/home/hades'')) (example_app (example_files celeste_manifest))
   = (Returned [Server_error_update PermissionError],
      example_app
        (example_files_with celeste_manifest
           [(''games.json.tmp'',
             File (Doc (JObj [(''games'', JArr [celeste, new_game ''g2'' ''Hades''])])))]))
   \<and> lookup [''srv'', ''g2'']
        (files (example_app
          (example_files_with celeste_manifest
             [(''games.json.tmp'',
               File (Doc (JObj [(''games'', JArr [celeste, new_game ''g2'' ''Hades''])])))])))
      = None
   \<and> load_games_from_json None
        (example_app
          (example_files_with celeste_manifest
             [(''games.json.tmp'',
               File (Doc (JObj [(''games'', JArr [celeste, new_game ''g2'' ''Hades''])])))]))
      = Inr [celeste]
   \<and> add_new_game no_add_faults ''g2'' (Some (''Hades'', ''/home/hades''))
        (example_app (example_files celeste_manifest))
      = (Registered,
         example_app
           (example_files_with (JObj [(''games'', JArr [celeste, new_game ''g2'' ''Hades''])])
              [(''g2'', Dir [(''save_data'', Dir []), (''backup'', Dir [])])]))
   \<and> fst (add_new_game no_add_faults ''g3'' (Some (''HADES'', ''/home/hades2''))
        (example_app
           (example_files_with (JObj [(''games'', JArr [celeste, new_game ''g2'' ''Hades''])])
              [(''g2'', Dir [(''save_data'', Dir []), (''backup'', Dir [])])])))
      = Returned [Duplicate_game]
   \<and> load_games_from_json None
        (snd (add_new_game no_add_faults ''g3'' (Some (''HADES'', ''/home/hades2''))
          (example_app
             (example_files_with (JObj [(''games'', JArr [celeste, new_game ''g2'' ''Hades''])])
                [(''g2'', Dir [(''save_data'', Dir []), (''backup'', Dir [])])]))))
      = Inr ([celeste] @ [new_game ''g2'' ''Hades''])
   \<and> length (filter (\<lambda>g. entry_name_lower g = Some (lower ''Hades''))
               ([celeste] @ [new_game ''g2'' ''Hades''])) = 1"
proof -
  let ?s = "example_app (example_files celeste_manifest)"
  let ?d = "JObj [(''games'', JArr [celeste, new_game ''g2'' ''Hades''])]"
  let ?sa = "example_app (example_files_with celeste_manifest [(''games.json.tmp'', File (Doc ?d))])"
  let ?t1 = "example_app (example_files_with ?d
              [(''g2'', Dir [(''save_data'', Dir []), (''backup'', Dir [])])])"
  let ?fa = "no_add_faults\<lparr>a_rename := Some PermissionError\<rparr>"
  have a1: "add_new_game ?fa ''g2'' (Some (''Hades'', ''/home/hades'')) ?s
            = (Returned [Server_error_update PermissionError], ?sa)"
    by (simp add: fs_defs app_defs example_defs Let_def)
  have a2: "\<not> list_ex is_mkdir_error [Server_error_update PermissionError]" by simp
  have a3: "a_rmtree_duplicate ?fa = None" "a_rmtree_rollback ?fa = None"
    by (simp_all add: no_add_faults_def)
  have a4: "lookup (server_path ?s @ [''g2'']) (files ?s) = None"
    by (simp add: example_defs)
  have a5: "load_games_from_json None ?s = Inr [celeste]"
    by (simp add: fs_defs app_defs example_defs)
  have A: "lookup (server_path ?s @ [''g2'']) (files ?sa) = None
         \<and> load_games_from_json None ?sa = Inr [celeste]"
    using registration_rolled_back [where flt = ?fa and ?uuid4.0 = "''g2''" and game_name = "''Hades''"
        and local_path = "''/home/hades''" and s = ?s and ms = "[Server_error_update PermissionError]"
        and s' = ?sa and catalog = "[celeste]"] a1 a2 a3 a4 a5
    by blast
  have sp: "server_path ?s @ [''g2''] = [''srv'', ''g2'']" by (simp add: example_defs)
  have b1: "add_new_game no_add_faults ''g2'' (Some (''Hades'', ''/home/hades'')) ?s = (Registered, ?t1)"
    by (simp add: fs_defs app_defs example_defs Let_def)
  have b2: "''g2'' \<noteq> []" "''Hades'' \<noteq> []" by simp_all
  have b3: "a_mkdir_save_data no_add_faults = None" "a_mkdir_backup no_add_faults = None"
           "a_read no_add_faults = None" "a_rmtree_duplicate no_add_faults = None"
    by (simp_all add: no_add_faults_def)
  have b4: "lower ''HADES'' = lower ''Hades''" by (simp add: lower_def lower_char_def)
  have b5: "lookup (server_path ?t1 @ [''g3'']) (files ?t1) = None"
    by (simp add: example_defs)
  have B: "fst (add_new_game no_add_faults ''g3'' (Some (''HADES'', ''/home/hades2'')) ?t1)
             = Returned [Duplicate_game]
         \<and> load_games_from_json None
              (snd (add_new_game no_add_faults ''g3'' (Some (''HADES'', ''/home/hades2'')) ?t1))
             = Inr ([celeste] @ [new_game ''g2'' ''Hades''])
         \<and> length (filter (\<lambda>g. entry_name_lower g = Some (lower ''Hades''))
               ([celeste] @ [new_game ''g2'' ''Hades''])) = 1"
    using registration_rolled_back [where ?flt1.0 = no_add_faults and ?id1.0 = "''g2''"
        and ?name1.0 = "''Hades''" and ?path1.0 = "''/home/hades''" and t = ?s and ?t1.0 = ?t1
        and cat = "[celeste]" and ?flt2.0 = no_add_faults and ?name2.0 = "''HADES''"
        and ?id2.0 = "''g3''" and ?path2.0 = "''/home/hades2''"] b1 a5 b2 b3 b4 b5
    by blast
  from a1 A [unfolded sp] b1 B show ?thesis by blast
qed

end
